theory Spec2Isabelle
  imports Main "HOL-Library.AList"
begin

section \<open>Python values and the operations the plugin applies to them\<close>

text \<open>
  The TypeScript plugin of multilspy (\<^verbatim>\<open>typescript_language_server.py\<close>) works on
  documents parsed by \<^verbatim>\<open>json.load\<close> and on the answers of the language server. Such a
  value is \<^verbatim>\<open>None\<close>, a bool, a number, a string, a list or a dict with string keys. Numbers
  are integers here (floats are left out). A dict is the association list of its items
  in insertion order, the keys distinct; a key is looked up with \<open>map_of\<close>, and
  storing and deleting (\<open>AList.update\<close>, \<open>AList.delete\<close>) keep the keys distinct.
\<close>

datatype json =
    JNull
  | JBool bool
  | JInt int
  | JStr string
  | JArr "json list"
  | JObj "(string \<times> json) list"

text \<open>
  The exceptions that can leave the plugin's functions. \<open>ProtocolError\<close> is the class the
  specification names for a rejected handshake; \<open>External\<close> is an exception of a class that
  only a collaborator outside this file knows.
\<close>

datatype py_error =
    AssertionError
  | KeyError
  | IndexError
  | TypeError
  | ValueError
  | AttributeError
  | FileNotFoundError
  | CalledProcessError
  | CancelledError
  | ProtocolError
  | External string

definition and_then :: "'e + 'a \<Rightarrow> ('a \<Rightarrow> 'e + 'b) \<Rightarrow> 'e + 'b" where
  "and_then r f = (case r of Inl e \<Rightarrow> Inl e | Inr v \<Rightarrow> f v)"

text \<open>
  \<^verbatim>\<open>assert b\<close>. The interpreter is taken to run without \<^verbatim>\<open>-O\<close>, which would drop
  the statement.
\<close>

definition py_assert :: "bool \<Rightarrow> py_error + unit" where
  "py_assert b = (if b then Inr () else Inl AssertionError)"

text \<open>
  Python's \<^verbatim>\<open>==\<close> on these values: \<^verbatim>\<open>True == 1\<close> and \<^verbatim>\<open>False == 0\<close> hold, lists are
  equal elementwise, and two dicts are equal when they have the same number of keys and
  every key of the left one is a key of the right one with an equal value.
\<close>

fun py_eq :: "json \<Rightarrow> json \<Rightarrow> bool"
  and py_eq_list :: "json list \<Rightarrow> json list \<Rightarrow> bool"
  and py_eq_items :: "(string \<times> json) list \<Rightarrow> (string \<times> json) list \<Rightarrow> bool"
  and py_eq_lookup :: "json \<Rightarrow> string \<Rightarrow> (string \<times> json) list \<Rightarrow> bool"
where
  "py_eq JNull JNull = True"
| "py_eq (JBool a) (JBool b) = (a = b)"
| "py_eq (JBool a) (JInt n) = ((if a then 1 else 0) = n)"
| "py_eq (JInt m) (JBool b) = (m = (if b then 1 else 0))"
| "py_eq (JInt m) (JInt n) = (m = n)"
| "py_eq (JStr s) (JStr t) = (s = t)"
| "py_eq (JArr xs) (JArr ys) = py_eq_list xs ys"
| "py_eq (JObj a) (JObj b) = (length a = length b \<and> py_eq_items a b)"
| "py_eq _ _ = False"
| "py_eq_list [] ys = (ys = [])"
| "py_eq_list (x # xs) [] = False"
| "py_eq_list (x # xs) (y # ys) = (py_eq x y \<and> py_eq_list xs ys)"
| "py_eq_items [] b = True"
| "py_eq_items ((k, v) # a) b = (py_eq_lookup v k b \<and> py_eq_items a b)"
| "py_eq_lookup v k [] = False"
| "py_eq_lookup v k ((k', w) # b) = (if k = k' then py_eq v w else py_eq_lookup v k b)"

text \<open>
  \<^verbatim>\<open>obj[key]\<close> with a string key: only a dict accepts one (\<^verbatim>\<open>KeyError\<close> when the key is
  absent); a list and a string want integer indices and the other values are not
  subscriptable, all \<^verbatim>\<open>TypeError\<close>.
\<close>

fun getitem :: "json \<Rightarrow> string \<Rightarrow> py_error + json" where
  "getitem (JObj d) k = (case map_of d k of None \<Rightarrow> Inl KeyError | Some v \<Rightarrow> Inr v)"
| "getitem _ k = Inl TypeError"

text \<open>
  \<^verbatim>\<open>obj[0]\<close>: the first element of a list or the first character of a string
  (\<^verbatim>\<open>IndexError\<close> when empty); a dict parsed from JSON has no key \<^verbatim>\<open>0\<close>.
\<close>

fun getitem0 :: "json \<Rightarrow> py_error + json" where
  "getitem0 (JArr []) = Inl IndexError"
| "getitem0 (JArr (x # xs)) = Inr x"
| "getitem0 (JStr []) = Inl IndexError"
| "getitem0 (JStr (c # cs)) = Inr (JStr [c])"
| "getitem0 (JObj d) = Inl KeyError"
| "getitem0 _ = Inl TypeError"

text \<open>\<^verbatim>\<open>obj[key] = v\<close> with a string key: a dict stores it, keeping the place of a key it has.\<close>

fun setitem :: "json \<Rightarrow> string \<Rightarrow> json \<Rightarrow> py_error + json" where
  "setitem (JObj d) k v = Inr (JObj (AList.update k v d))"
| "setitem _ k v = Inl TypeError"

text \<open>\<^verbatim>\<open>del obj[key]\<close> with a string key.\<close>

fun delitem :: "json \<Rightarrow> string \<Rightarrow> py_error + json" where
  "delitem (JObj d) k =
     (case map_of d k of None \<Rightarrow> Inl KeyError | Some v \<Rightarrow> Inr (JObj (AList.delete k d)))"
| "delitem _ k = Inl TypeError"

text \<open>
  \<^verbatim>\<open>d[k1][0][k2] = v\<close> changes the dict \<^verbatim>\<open>d[k1][0]\<close> in place. The values form a tree (the
  parser shares nothing), so the change is seen through \<^verbatim>\<open>d\<close> only: the new element is
  put back at index 0 of the list, and the list back under \<^verbatim>\<open>k1\<close>.
\<close>

fun store_back0 :: "json \<Rightarrow> json \<Rightarrow> json" where
  "store_back0 (JArr (x # xs)) w = JArr (w # xs)"
| "store_back0 l w = l"

definition setitem_nested :: "json \<Rightarrow> string \<Rightarrow> string \<Rightarrow> json \<Rightarrow> py_error + json" where
  "setitem_nested d k1 k2 v =
     and_then (getitem d k1) (\<lambda>l.
     and_then (getitem0 l) (\<lambda>w.
     and_then (setitem w k2 v) (\<lambda>w'.
     setitem d k1 (store_back0 l w'))))"

subsection \<open>Strings and paths\<close>

definition starts_with :: "string \<Rightarrow> string \<Rightarrow> bool" where
  "starts_with s p = (take (length p) s = p)"

definition ends_with :: "string \<Rightarrow> string \<Rightarrow> bool" where
  "ends_with s p = (length p \<le> length s \<and> drop (length s - length p) s = p)"

text \<open>\<^verbatim>\<open>s.find(sub)\<close>: the lowest index where \<^verbatim>\<open>sub\<close> starts in \<^verbatim>\<open>s\<close>, or \<^verbatim>\<open>-1\<close>.\<close>

fun str_find_from :: "nat \<Rightarrow> string \<Rightarrow> string \<Rightarrow> int" where
  "str_find_from i [] sub = (if sub = [] then int i else - 1)"
| "str_find_from i (c # s) sub =
     (if starts_with (c # s) sub then int i else str_find_from (Suc i) s sub)"

definition str_find :: "string \<Rightarrow> string \<Rightarrow> int" where
  "str_find s sub = str_find_from 0 s sub"

text \<open>\<^verbatim>\<open>os.path.basename\<close> (POSIX): what follows the last slash.\<close>

definition basename :: "string \<Rightarrow> string" where
  "basename p = rev (takeWhile (\<lambda>c. c \<noteq> CHR ''/'') (rev p))"

text \<open>\<^verbatim>\<open>os.path.join\<close> (POSIX), one component at a time.\<close>

definition join2 :: "string \<Rightarrow> string \<Rightarrow> string" where
  "join2 a b =
     (if starts_with b ''/'' then b
      else if a = [] \<or> ends_with a ''/'' then a @ b
      else a @ ''/'' @ b)"

definition os_path_join :: "string \<Rightarrow> string list \<Rightarrow> string" where
  "os_path_join a ps = foldl join2 a ps"

subsection \<open>Iteration, membership and the dict methods\<close>

text \<open>\<^verbatim>\<open>key in obj\<close> for a string \<^verbatim>\<open>key\<close>.\<close>

fun py_contains :: "json \<Rightarrow> string \<Rightarrow> py_error + bool" where
  "py_contains (JObj d) k = Inr (map_of d k \<noteq> None)"
| "py_contains (JArr xs) k = Inr (list_ex (\<lambda>x. py_eq x (JStr k)) xs)"
| "py_contains (JStr s) k = Inr (str_find s k \<noteq> - 1)"
| "py_contains _ k = Inl TypeError"

text \<open>\<^verbatim>\<open>for x in obj\<close>: the elements of a list, the keys of a dict, the characters of a string.\<close>

fun py_iter :: "json \<Rightarrow> py_error + json list" where
  "py_iter (JArr xs) = Inr xs"
| "py_iter (JObj d) = Inr (map (\<lambda>kv. JStr (fst kv)) d)"
| "py_iter (JStr s) = Inr (map (\<lambda>c. JStr [c]) s)"
| "py_iter _ = Inl TypeError"

fun py_len :: "json \<Rightarrow> py_error + nat" where
  "py_len (JArr xs) = Inr (length xs)"
| "py_len (JObj d) = Inr (length d)"
| "py_len (JStr s) = Inr (length s)"
| "py_len _ = Inl TypeError"

text \<open>
  \<^verbatim>\<open>obj.get(key, default)\<close> and \<^verbatim>\<open>obj.pop(key, None)\<close>. Only a dict has \<^verbatim>\<open>get\<close>; a list
  has a \<^verbatim>\<open>pop\<close> too, which takes one argument at most (\<^verbatim>\<open>TypeError\<close>).
\<close>

fun py_get :: "json \<Rightarrow> string \<Rightarrow> json \<Rightarrow> py_error + json" where
  "py_get (JObj d) k dflt = Inr (case map_of d k of None \<Rightarrow> dflt | Some v \<Rightarrow> v)"
| "py_get _ k dflt = Inl AttributeError"

fun py_pop :: "json \<Rightarrow> string \<Rightarrow> py_error + json" where
  "py_pop (JObj d) k = Inr (JObj (AList.delete k d))"
| "py_pop (JArr xs) k = Inl TypeError"
| "py_pop _ k = Inl AttributeError"

section \<open>The initialize parameters\<close>

text \<open>
  What \<^verbatim>\<open>start_server\<close> and \<^verbatim>\<open>_get_initialize_params\<close> take from outside the file: the
  process id, \<^verbatim>\<open>pathlib.Path(p).as_uri()\<close> (a \<^verbatim>\<open>ValueError\<close> for a path that is not
  absolute), the document read from \<^verbatim>\<open>initialize_params.json\<close> (or the error of reading
  it), and how each call on \<^verbatim>\<open>self.server\<close> ends: with an exception or, for
  \<^verbatim>\<open>send.initialize\<close>, with the server's answer to the parameters sent.
\<close>

record runtime =
  getpid :: int
  as_uri :: "string \<Rightarrow> py_error + string"
  load_initialize_params :: "py_error + json"
  server_start :: "py_error option"
  send_initialize :: "json \<Rightarrow> py_error + json"
  server_shutdown :: "py_error option"
  server_stop :: "py_error option"

text \<open>\<^verbatim>\<open>_get_initialize_params\<close>, statement by statement (lines 176 to 194).\<close>

definition get_initialize_params :: "runtime \<Rightarrow> string \<Rightarrow> py_error + json" where
  "get_initialize_params env repository_absolute_path =
     and_then (load_initialize_params env) (\<lambda>d.
     and_then (delitem d ''_description'') (\<lambda>d.
     and_then (setitem d ''processId'' (JInt (getpid env))) (\<lambda>d.
     and_then (getitem d ''rootPath'') (\<lambda>v.
     and_then (py_assert (py_eq v (JStr ''$rootPath''))) (\<lambda>_.
     and_then (setitem d ''rootPath'' (JStr repository_absolute_path)) (\<lambda>d.
     and_then (getitem d ''rootUri'') (\<lambda>v.
     and_then (py_assert (py_eq v (JStr ''$rootUri''))) (\<lambda>_.
     and_then (as_uri env repository_absolute_path) (\<lambda>u.
     and_then (setitem d ''rootUri'' (JStr u)) (\<lambda>d.
     and_then (and_then (and_then (getitem d ''workspaceFolders'') getitem0)
                 (\<lambda>w. getitem w ''uri'')) (\<lambda>v.
     and_then (py_assert (py_eq v (JStr ''$uri''))) (\<lambda>_.
     and_then (as_uri env repository_absolute_path) (\<lambda>u.
     and_then (setitem_nested d ''workspaceFolders'' ''uri'' (JStr u)) (\<lambda>d.
     and_then (and_then (and_then (getitem d ''workspaceFolders'') getitem0)
                 (\<lambda>w. getitem w ''name'')) (\<lambda>v.
     and_then (py_assert (py_eq v (JStr ''$name''))) (\<lambda>_.
     and_then (setitem_nested d ''workspaceFolders'' ''name''
                 (JStr (basename repository_absolute_path))) (\<lambda>d.
     Inr d)))))))))))))))))"

text \<open>
  The four comparisons the function asserts, read on the loaded template:
  \<open>placeholders_readable\<close> says that each compared field exists, \<open>placeholders_present\<close>
  that each holds its placeholder.
\<close>

definition placeholder_fields :: "json \<Rightarrow> (py_error + json) list" where
  "placeholder_fields d =
     [getitem d ''rootPath'',
      getitem d ''rootUri'',
      and_then (and_then (getitem d ''workspaceFolders'') getitem0) (\<lambda>w. getitem w ''uri''),
      and_then (and_then (getitem d ''workspaceFolders'') getitem0) (\<lambda>w. getitem w ''name'')]"

definition placeholders_readable :: "json \<Rightarrow> bool" where
  "placeholders_readable d = list_all (\<lambda>r. \<not> isl r) (placeholder_fields d)"

definition placeholders_present :: "json \<Rightarrow> bool" where
  "placeholders_present d =
     (placeholder_fields d =
        [Inr (JStr ''$rootPath''), Inr (JStr ''$rootUri''), Inr (JStr ''$uri''),
         Inr (JStr ''$name'')])"

section \<open>The session: \<^verbatim>\<open>start_server\<close>\<close>

text \<open>
  The four handlers \<^verbatim>\<open>start_server\<close> defines, by name, and the three one-shot signals
  (\<^verbatim>\<open>asyncio.Event\<close>) of the instance.
\<close>

datatype handler_ref =
    Ref_register_capability_handler
  | Ref_execute_client_command_handler
  | Ref_do_nothing
  | Ref_window_log_message

datatype signal =
    Completions_available
  | Server_ready
  | Initialize_searcher_command_available

text \<open>
  What the session does to the outside, in the order it does it: a handler registered on
  \<^verbatim>\<open>self.server\<close>, the scope of the base class entered and left, a call on
  \<^verbatim>\<open>self.server\<close>, a signal set, a line logged, and \<open>Yield\<close>: the session handed to the
  caller, ready for requests.
\<close>

datatype event =
    On_request string handler_ref
  | On_notification string handler_ref
  | Super_enter
  | Super_exit
  | Logger_log string
  | Server_start
  | Send_initialize json
  | Notify_initialized
  | Set_signal signal
  | Yield
  | Server_shutdown
  | Server_stop

text \<open>
  The instance. The two handler tables belong to \<^verbatim>\<open>self.server\<close>. The plugin's
  \<^verbatim>\<open>__init__\<close> creates \<^verbatim>\<open>server_ready\<close> only. \<^verbatim>\<open>completions_available\<close> is set on
  the way to every ready session and is taken to be created by the base class, which
  is not among the sources. \<^verbatim>\<open>initialize_searcher_command_available\<close> is touched by one
  handler only and nothing in the file creates it: it is \<open>None\<close> when the instance has
  no such attribute, and then \<^verbatim>\<open>self.initialize_searcher_command_available\<close> raises
  \<^verbatim>\<open>AttributeError\<close>. \<open>trace\<close> records the events so far. Registering a handler,
  sending the \<^verbatim>\<open>initialized\<close> notification, setting a signal and logging are taken to
  return; the calls that start the server, send \<^verbatim>\<open>initialize\<close>, shut the server down
  and stop it end as the \<open>runtime\<close> says.
\<close>

record language_server =
  repository_root_path :: string
  launch_cmd :: string
  launch_cwd :: string
  language_id :: string
  on_request_handlers :: "(string \<times> handler_ref) list"
  on_notification_handlers :: "(string \<times> handler_ref) list"
  completions_available :: bool
  server_ready :: bool
  initialize_searcher_command_available :: "bool option"
  trace :: "event list"

definition emit :: "event \<Rightarrow> language_server \<Rightarrow> language_server" where
  "emit e s = s\<lparr>trace := trace s @ [e]\<rparr>"

definition on_request :: "string \<Rightarrow> handler_ref \<Rightarrow> language_server \<Rightarrow> language_server" where
  "on_request m h s =
     emit (On_request m h) (s\<lparr>on_request_handlers := AList.update m h (on_request_handlers s)\<rparr>)"

definition on_notification :: "string \<Rightarrow> handler_ref \<Rightarrow> language_server \<Rightarrow> language_server" where
  "on_notification m h s =
     emit (On_notification m h)
       (s\<lparr>on_notification_handlers := AList.update m h (on_notification_handlers s)\<rparr>)"

fun set_signal :: "signal \<Rightarrow> language_server \<Rightarrow> language_server" where
  "set_signal Completions_available s =
     emit (Set_signal Completions_available) (s\<lparr>completions_available := True\<rparr>)"
| "set_signal Server_ready s =
     emit (Set_signal Server_ready) (s\<lparr>server_ready := True\<rparr>)"
| "set_signal Initialize_searcher_command_available s =
     emit (Set_signal Initialize_searcher_command_available)
       (s\<lparr>initialize_searcher_command_available := Some True\<rparr>)"

subsection \<open>The handlers\<close>

text \<open>
  The loop of \<^verbatim>\<open>register_capability_handler\<close> (lines 213 to 215): an entry without a
  readable \<^verbatim>\<open>"method"\<close> ends the handler with the exception of the subscript, and an
  entry with the method \<^verbatim>\<open>workspace/executeCommand\<close> ends it with \<^verbatim>\<open>AttributeError\<close>
  when the instance has no attribute \<^verbatim>\<open>initialize_searcher_command_available\<close>.
\<close>

fun register_capability_loop ::
  "json list \<Rightarrow> language_server \<Rightarrow> (py_error + json) \<times> language_server" where
  "register_capability_loop [] s = (Inr JNull, s)"
| "register_capability_loop (registration # rs) s =
     (case getitem registration ''method'' of
        Inl e \<Rightarrow> (Inl e, s)
      | Inr m \<Rightarrow>
          if py_eq m (JStr ''workspace/executeCommand'')
          then (case initialize_searcher_command_available s of
                  None \<Rightarrow> (Inl AttributeError, s)
                | Some b \<Rightarrow>
                    register_capability_loop rs
                      (set_signal Initialize_searcher_command_available s))
          else register_capability_loop rs s)"

text \<open>An entry of \<^verbatim>\<open>params["registrations"]\<close> whose method is \<^verbatim>\<open>workspace/executeCommand\<close>.\<close>

definition registers_execute_command :: "json \<Rightarrow> bool" where
  "registers_execute_command registration =
     (getitem registration ''method'' = Inr (JStr ''workspace/executeCommand''))"

definition register_capability_handler ::
  "json \<Rightarrow> language_server \<Rightarrow> (py_error + json) \<times> language_server" where
  "register_capability_handler params s =
     (case and_then (and_then (py_contains params ''registrations'') py_assert)
             (\<lambda>_. and_then (getitem params ''registrations'') py_iter) of
        Inl e \<Rightarrow> (Inl e, s)
      | Inr rs \<Rightarrow> register_capability_loop rs s)"

definition execute_client_command_handler ::
  "json \<Rightarrow> language_server \<Rightarrow> (py_error + json) \<times> language_server" where
  "execute_client_command_handler params s = (Inr (JArr []), s)"

definition do_nothing :: "json \<Rightarrow> language_server \<Rightarrow> (py_error + json) \<times> language_server" where
  "do_nothing params s = (Inr JNull, s)"

definition window_log_message ::
  "json \<Rightarrow> language_server \<Rightarrow> (py_error + json) \<times> language_server" where
  "window_log_message msg s = (Inr JNull, emit (Logger_log ''LSP: window/logMessage'') s)"

fun call_handler ::
  "handler_ref \<Rightarrow> json \<Rightarrow> language_server \<Rightarrow> (py_error + json) \<times> language_server" where
  "call_handler Ref_register_capability_handler = register_capability_handler"
| "call_handler Ref_execute_client_command_handler = execute_client_command_handler"
| "call_handler Ref_do_nothing = do_nothing"
| "call_handler Ref_window_log_message = window_log_message"

subsection \<open>Startup and shutdown\<close>

text \<open>Lines 230 to 234.\<close>

definition register_handlers :: "language_server \<Rightarrow> language_server" where
  "register_handlers s =
     on_notification ''textDocument/publishDiagnostics'' Ref_do_nothing
       (on_notification ''$/progress'' Ref_do_nothing
         (on_request ''workspace/executeClientCommand'' Ref_execute_client_command_handler
           (on_notification ''window/logMessage'' Ref_window_log_message
             (on_request ''client/registerCapability'' Ref_register_capability_handler s))))"

text \<open>The capability document the plugin expects (lines 250 to 253).\<close>

definition expected_completion_provider :: json where
  "expected_completion_provider =
     JObj [(''triggerCharacters'',
              JArr [JStr ''.'', JStr [CHR 0x22], JStr [CHR 0x27], JStr ''/'', JStr ''@'',
                    JStr ''<'']),
           (''resolveProvider'', JBool True)]"

text \<open>The three assertions on the answer to \<^verbatim>\<open>initialize\<close> (lines 248 to 253).\<close>

definition check_capabilities :: "json \<Rightarrow> py_error + unit" where
  "check_capabilities init_response =
     and_then (and_then (getitem init_response ''capabilities'')
                 (\<lambda>c. getitem c ''textDocumentSync'')) (\<lambda>v.
     and_then (py_assert (py_eq v (JInt 2))) (\<lambda>_.
     and_then (and_then (getitem init_response ''capabilities'')
                 (\<lambda>c. py_contains c ''completionProvider'')) (\<lambda>b.
     and_then (py_assert b) (\<lambda>_.
     and_then (and_then (getitem init_response ''capabilities'')
                 (\<lambda>c. getitem c ''completionProvider'')) (\<lambda>v.
     py_assert (py_eq v expected_completion_provider))))))"

text \<open>
  What the assertions ask of the answer, read on the answer itself:
  \<open>text_document_sync\<close> is \<^verbatim>\<open>init_response["capabilities"]["textDocumentSync"]\<close>, and
  \<open>capabilities_as_expected\<close> says that it is \<^verbatim>\<open>== 2\<close> and that the completion provider
  is there and \<^verbatim>\<open>==\<close> the expected document.
\<close>

definition text_document_sync :: "json \<Rightarrow> py_error + json" where
  "text_document_sync init_response =
     and_then (getitem init_response ''capabilities'') (\<lambda>c. getitem c ''textDocumentSync'')"

definition completion_provider :: "json \<Rightarrow> py_error + json" where
  "completion_provider init_response =
     and_then (getitem init_response ''capabilities'') (\<lambda>c. getitem c ''completionProvider'')"

definition capabilities_as_expected :: "json \<Rightarrow> bool" where
  "capabilities_as_expected init_response =
     ((case text_document_sync init_response of
         Inl e \<Rightarrow> False | Inr v \<Rightarrow> py_eq v (JInt 2))
      \<and> (case completion_provider init_response of
         Inl e \<Rightarrow> False | Inr v \<Rightarrow> py_eq v expected_completion_provider))"

text \<open>
  The body of \<^verbatim>\<open>async with super().start_server()\<close> up to the \<^verbatim>\<open>yield\<close> (lines 237 to
  260). \<^verbatim>\<open>server_ready.wait()\<close> returns at once, the signal being set the line before.
\<close>

definition handshake :: "runtime \<Rightarrow> language_server \<Rightarrow> (py_error + unit) \<times> language_server" where
  "handshake env s0 =
     (let s1 = emit Server_start (emit (Logger_log ''Starting TypeScript server process'') s0) in
      case server_start env of
        Some e \<Rightarrow> (Inl e, s1)
      | None \<Rightarrow>
         (case get_initialize_params env (repository_root_path s1) of
            Inl e \<Rightarrow> (Inl e, s1)
          | Inr initialize_params \<Rightarrow>
             (let s2 = emit (Send_initialize initialize_params)
                         (emit (Logger_log ''Sending initialize request'') s1) in
              case send_initialize env initialize_params of
                Inl e \<Rightarrow> (Inl e, s2)
              | Inr init_response \<Rightarrow>
                 (case check_capabilities init_response of
                    Inl e \<Rightarrow> (Inl e, s2)
                  | Inr _ \<Rightarrow>
                     (Inr (),
                      set_signal Server_ready
                        (set_signal Completions_available (emit Notify_initialized s2)))))))"

text \<open>
  \<^verbatim>\<open>start_server\<close> up to the \<^verbatim>\<open>yield\<close>. The scope of the base class is taken to let an
  exception through: it is left, and the exception reaches the caller.
\<close>

definition start_server_enter ::
  "runtime \<Rightarrow> language_server \<Rightarrow> (py_error + unit) \<times> language_server" where
  "start_server_enter env s =
     (case handshake env (emit Super_enter (register_handlers s)) of
        (Inl e, s') \<Rightarrow> (Inl e, emit Super_exit s')
      | (Inr u, s') \<Rightarrow> (Inr u, emit Yield s'))"

text \<open>
  How the caller's \<^verbatim>\<open>async with\<close> block ends: it returns, or an exception leaves it (a
  cancellation is the exception \<^verbatim>\<open>CancelledError\<close>).
\<close>

datatype body_exit = Body_returns | Body_raises py_error

text \<open>
  \<^verbatim>\<open>start_server\<close> after the \<^verbatim>\<open>yield\<close> (lines 262 to 265). The function is a generator
  under \<^verbatim>\<open>asynccontextmanager\<close>: when the caller's block raises, the exception is raised
  again at the \<^verbatim>\<open>yield\<close>, and no \<^verbatim>\<open>try\<close> surrounds it, so the two lines after it
  are skipped.
\<close>

definition start_server_exit ::
  "runtime \<Rightarrow> body_exit \<Rightarrow> language_server \<Rightarrow> py_error option \<times> language_server" where
  "start_server_exit env body s =
     (case body of
        Body_raises e \<Rightarrow> (Some e, emit Super_exit s)
      | Body_returns \<Rightarrow>
         (let s1 = emit Server_shutdown s in
          case server_shutdown env of
            Some e \<Rightarrow> (Some e, emit Super_exit s1)
          | None \<Rightarrow>
             (let s2 = emit Server_stop s1 in
              case server_stop env of
                Some e \<Rightarrow> (Some e, emit Super_exit s2)
              | None \<Rightarrow> (None, emit Super_exit s2))))"

definition start_server ::
  "runtime \<Rightarrow> body_exit \<Rightarrow> language_server \<Rightarrow> py_error option \<times> language_server" where
  "start_server env body s =
     (case start_server_enter env s of
        (Inl e, s') \<Rightarrow> (Some e, s')
      | (Inr u, s') \<Rightarrow> start_server_exit env body s')"

subsection \<open>A template, a server and an instance to run the definitions on\<close>

definition example_template :: json where
  "example_template =
     JObj [(''_description'', JStr ''parameters of the initialize request''),
           (''processId'', JStr ''os.getpid()''),
           (''rootPath'', JStr ''$rootPath''),
           (''rootUri'', JStr ''$rootUri''),
           (''capabilities'', JObj []),
           (''workspaceFolders'',
              JArr [JObj [(''uri'', JStr ''$uri''), (''name'', JStr ''$name'')]])]"

definition example_response :: "json \<Rightarrow> json \<Rightarrow> json" where
  "example_response sync resolve =
     JObj [(''capabilities'',
        JObj [(''textDocumentSync'', sync),
              (''completionProvider'',
                 JObj [(''triggerCharacters'',
                          JArr [JStr ''.'', JStr [CHR 0x22], JStr [CHR 0x27], JStr ''/'',
                                JStr ''@'', JStr ''<'']),
                       (''resolveProvider'', resolve)])])]"

definition example_runtime :: "json \<Rightarrow> json \<Rightarrow> runtime" where
  "example_runtime tmpl response =
     \<lparr>getpid = 4242,
      as_uri = (\<lambda>p. if starts_with p ''/'' then Inr (''file://'' @ p) else Inl ValueError),
      load_initialize_params = Inr tmpl,
      server_start = None,
      send_initialize = (\<lambda>params. Inr response),
      server_shutdown = None,
      server_stop = None\<rparr>"

definition example_server :: language_server where
  "example_server =
     \<lparr>repository_root_path = ''/home/u/repo'',
      launch_cmd = ''/tmp/static/ts-lsp/node_modules/.bin/typescript-language-server --stdio'',
      launch_cwd = ''/home/u/repo'',
      language_id = ''typescript'',
      on_request_handlers = [],
      on_notification_handlers = [],
      completions_available = False,
      server_ready = False,
      initialize_searcher_command_available = None,
      trace = []\<rparr>"

definition example_params :: json where
  "example_params =
     JObj [(''processId'', JInt 4242),
           (''rootPath'', JStr ''/home/u/repo''),
           (''rootUri'', JStr ''file:///home/u/repo''),
           (''capabilities'', JObj []),
           (''workspaceFolders'',
              JArr [JObj [(''uri'', JStr ''file:///home/u/repo''),
                          (''name'', JStr ''repo'')]])]"

text \<open>A template whose \<^verbatim>\<open>rootUri\<close> does not hold the placeholder.\<close>

definition example_bad_template :: json where
  "example_bad_template =
     JObj [(''_description'', JStr ''parameters of the initialize request''),
           (''rootPath'', JStr ''$rootPath''),
           (''rootUri'', JStr ''file:///srv''),
           (''workspaceFolders'',
              JArr [JObj [(''uri'', JStr ''$uri''), (''name'', JStr ''$name'')]])]"

text \<open>A server whose answer matches the expected capabilities, and two that do not.\<close>

definition example_good_runtime :: runtime where
  "example_good_runtime =
     example_runtime example_template (example_response (JInt 2) (JBool True))"

definition example_sync1_runtime :: runtime where
  "example_sync1_runtime =
     example_runtime example_template (example_response (JInt 1) (JBool True))"

definition example_resolve1_runtime :: runtime where
  "example_resolve1_runtime =
     example_runtime example_template (example_response (JInt 2) (JInt 1))"

text \<open>A registration request as a server sends it, and one with an entry that has no method.\<close>

definition example_registrations :: "json list" where
  "example_registrations =
     [JObj [(''id'', JStr ''1''), (''method'', JStr ''workspace/didChangeWatchedFiles'')],
      JObj [(''id'', JStr ''2''), (''method'', JStr ''workspace/executeCommand'')]]"

definition example_malformed_registrations :: "json list" where
  "example_malformed_registrations =
     [JObj [(''id'', JStr ''1'')],
      JObj [(''id'', JStr ''2''), (''method'', JStr ''workspace/executeCommand'')]]"

section \<open>Creating the plugin: \<^verbatim>\<open>setup_runtime_dependencies\<close> and \<^verbatim>\<open>__init__\<close>\<close>

text \<open>
  The platforms the source names; the enumeration itself is not among the sources, so
  any other member is \<open>Other_platform\<close>.
\<close>

datatype PlatformId =
    LINUX_x64
  | LINUX_arm64
  | OSX
  | OSX_x64
  | OSX_arm64
  | WIN_x64
  | WIN_arm64
  | Other_platform string

definition valid_platforms :: "PlatformId list" where
  "valid_platforms = [LINUX_x64, LINUX_arm64, OSX, OSX_x64, OSX_arm64, WIN_x64, WIN_arm64]"

text \<open>
  The machine as the function sees it: the paths that exist and the commands it has
  spawned so far.
\<close>

record os_state =
  files :: "string set"
  spawned :: "json list"

text \<open>
  What the function takes from outside: the platform (or the error of detecting it),
  the directory of the module (\<^verbatim>\<open>os.path.dirname(__file__)\<close>), the document read from
  \<^verbatim>\<open>runtime_dependencies.json\<close> (or the error of reading it), \<^verbatim>\<open>shutil.which\<close>, the
  effect of \<^verbatim>\<open>os.makedirs\<close> with \<^verbatim>\<open>os.chmod\<close> on the paths, and the effect of running one
  install command in a directory (lines 130 to 153), each with the exception it may
  raise. The base class is outside the file too: \<open>base_creates_searcher_signal\<close> says
  whether its \<^verbatim>\<open>__init__\<close> creates the attribute
  \<^verbatim>\<open>initialize_searcher_command_available\<close>.
\<close>

record host =
  get_platform_id :: "py_error + PlatformId"
  module_dir :: string
  load_runtime_dependencies :: "py_error + json"
  which :: "string \<Rightarrow> string option"
  makedirs :: "string \<Rightarrow> string set \<Rightarrow> py_error option \<times> string set"
  run_install :: "json \<Rightarrow> string \<Rightarrow> string set \<Rightarrow> py_error option \<times> string set"
  base_creates_searcher_signal :: bool

text \<open>Lines 99, 100 and 160.\<close>

definition tsserver_ls_dir :: string where
  "tsserver_ls_dir = os_path_join (os_path_join ''/tmp'' [[]]) [''static'', ''ts-lsp'']"

definition tsserver_executable :: string where
  "tsserver_executable =
     os_path_join tsserver_ls_dir [''node_modules'', ''.bin'', ''typescript-language-server'']"

text \<open>
  Lines 76 to 87: the list of runtime dependencies. \<^verbatim>\<open>len\<close> is called on it for the
  message that is printed.
\<close>

definition load_dependencies :: "host \<Rightarrow> py_error + json" where
  "load_dependencies h =
     and_then (load_runtime_dependencies h) (\<lambda>d.
     and_then (py_pop d ''_description'') (\<lambda>d.
     and_then (py_get d ''runtimeDependencies'' (JArr [])) (\<lambda>runtime_dependencies.
     and_then (py_len runtime_dependencies) (\<lambda>n.
     Inr runtime_dependencies))))"

text \<open>The loop of lines 127 to 153.\<close>

fun install_dependencies ::
  "host \<Rightarrow> json list \<Rightarrow> os_state \<Rightarrow> py_error option \<times> os_state" where
  "install_dependencies h [] st = (None, st)"
| "install_dependencies h (dependency # ds) st =
     (case py_get dependency ''command'' JNull of
        Inl e \<Rightarrow> (Some e, st)
      | Inr cmd \<Rightarrow>
         (case run_install h cmd tsserver_ls_dir (files st) of
            (Some e, fs) \<Rightarrow> (Some e, \<lparr>files = fs, spawned = spawned st @ [cmd]\<rparr>)
          | (None, fs) \<Rightarrow>
              install_dependencies h ds \<lparr>files = fs, spawned = spawned st @ [cmd]\<rparr>))"

text \<open>Lines 122 to 156: the dependencies are installed when the directory is not there.\<close>

definition install_if_needed ::
  "host \<Rightarrow> json \<Rightarrow> os_state \<Rightarrow> py_error option \<times> os_state" where
  "install_if_needed h runtime_dependencies st =
     (if tsserver_ls_dir \<in> files st then (None, st)
      else case makedirs h tsserver_ls_dir (files st) of
          (Some e, fs) \<Rightarrow> (Some e, st\<lparr>files := fs\<rparr>)
        | (None, fs) \<Rightarrow>
           (case py_iter runtime_dependencies of
              Inl e \<Rightarrow> (Some e, st\<lparr>files := fs\<rparr>)
            | Inr ds \<Rightarrow> install_dependencies h ds (st\<lparr>files := fs\<rparr>)))"

text \<open>
  The commands the loop runs when no step of it raises: the \<^verbatim>\<open>"command"\<close> of each
  dependency, in order.
\<close>

definition command_of :: "json \<Rightarrow> json" where
  "command_of dependency =
     (case py_get dependency ''command'' JNull of Inl e \<Rightarrow> JNull | Inr cmd \<Rightarrow> cmd)"

definition dependency_commands :: "json \<Rightarrow> json list" where
  "dependency_commands runtime_dependencies =
     (case py_iter runtime_dependencies of Inl e \<Rightarrow> [] | Inr ds \<Rightarrow> map command_of ds)"

text \<open>\<^verbatim>\<open>setup_runtime_dependencies\<close>, block by block; every block raises again what it catches.\<close>

definition setup_runtime_dependencies ::
  "host \<Rightarrow> os_state \<Rightarrow> (py_error + string) \<times> os_state" where
  "setup_runtime_dependencies h st =
     (case get_platform_id h of
        Inl e \<Rightarrow> (Inl e, st)
      | Inr platform_id \<Rightarrow>
     if platform_id \<notin> set valid_platforms then (Inl AssertionError, st) else
     case load_dependencies h of
        Inl e \<Rightarrow> (Inl e, st)
      | Inr runtime_dependencies \<Rightarrow>
     if str_find (module_dir h) ''site-packages/'' = - 1 then (Inl ValueError, st) else
     if which h ''node'' = None then (Inl AssertionError, st) else
     if which h ''npm'' = None then (Inl AssertionError, st) else
     case install_if_needed h runtime_dependencies st of
        (Some e, st') \<Rightarrow> (Inl e, st')
      | (None, st') \<Rightarrow>
     if tsserver_executable \<notin> files st' then (Inl FileNotFoundError, st')
     else (Inr (tsserver_executable @ '' --stdio''), st'))"

text \<open>
  \<^verbatim>\<open>__init__\<close>: the launch command comes from \<^verbatim>\<open>setup_runtime_dependencies\<close>; only then
  does the base class get the launch information (command and working directory) and
  the language id. The base class is taken to store them and to start with empty handler
  tables and \<^verbatim>\<open>completions_available\<close> unset; the plugin then creates \<^verbatim>\<open>server_ready\<close>
  (line 46) and no other signal.
\<close>

definition TypeScriptLanguageServer ::
  "host \<Rightarrow> string \<Rightarrow> os_state \<Rightarrow> (py_error + language_server) \<times> os_state" where
  "TypeScriptLanguageServer h root st =
     (case setup_runtime_dependencies h st of
        (Inl e, st') \<Rightarrow> (Inl e, st')
      | (Inr ts_lsp_executable_path, st') \<Rightarrow>
          (Inr \<lparr>repository_root_path = root,
                launch_cmd = ts_lsp_executable_path,
                launch_cwd = root,
                language_id = ''typescript'',
                on_request_handlers = [],
                on_notification_handlers = [],
                completions_available = False,
                server_ready = False,
                initialize_searcher_command_available =
                  (if base_creates_searcher_signal h then Some False else None),
                trace = []\<rparr>, st'))"

subsection \<open>Hosts to run the definitions on\<close>

text \<open>
  A Linux host with one install command that creates the executable, and a base class
  that does not create \<^verbatim>\<open>initialize_searcher_command_available\<close>; the module directory,
  what is on the \<^verbatim>\<open>PATH\<close> and the existing paths are left open.
\<close>

definition example_host :: "string \<Rightarrow> (string \<Rightarrow> string option) \<Rightarrow> host" where
  "example_host dir wh =
     \<lparr>get_platform_id = Inr LINUX_x64,
      module_dir = dir,
      load_runtime_dependencies =
        Inr (JObj [(''_description'', JStr ''what the server needs''),
                   (''runtimeDependencies'',
                      JArr [JObj [(''id'', JStr ''typescript-language-server''),
                                  (''command'', JStr ''npm install typescript-language-server'')]])]),
      which = wh,
      makedirs = (\<lambda>p fs. (None, insert p fs)),
      run_install = (\<lambda>cmd cwd fs. (None, insert tsserver_executable fs)),
      base_creates_searcher_signal = False\<rparr>"

definition example_site_dir :: string where
  "example_site_dir =
     ''/usr/lib/python3/site-packages/multilspy/language_servers/typescript_language_server''"

definition example_checkout_dir :: string where
  "example_checkout_dir =
     ''/home/u/multilspy/src/multilspy/language_servers/typescript_language_server''"

definition example_path :: "string \<Rightarrow> string option" where
  "example_path name = Some (''/usr/bin/'' @ name)"

definition example_installed :: os_state where
  "example_installed = \<lparr>files = {tsserver_ls_dir, tsserver_executable}, spawned = []\<rparr>"

text \<open>The same host, with an install command that succeeds and creates nothing.\<close>

definition example_idle_install_host :: host where
  "example_idle_install_host =
     (example_host example_site_dir example_path)\<lparr>run_install := (\<lambda>cmd cwd fs. (None, fs))\<rparr>"

definition example_empty_disk :: os_state where
  "example_empty_disk = \<lparr>files = {}, spawned = []\<rparr>"


section \<open>Properties\<close>

subsection \<open>Basic facts about the Python operations\<close>


lemma and_then_simps [simp]:
  "and_then (Inl e) f = Inl e"
  "and_then (Inr v) f = f v"
  by (simp_all add: and_then_def)

lemma and_then_eq_Inr: "and_then r f = Inr y \<longleftrightarrow> (\<exists>v. r = Inr v \<and> f v = Inr y)"
  by (cases r) simp_all

lemma py_eq_JStr [simp]: "py_eq v (JStr s) \<longleftrightarrow> v = JStr s"
  by (cases v) auto

lemma py_assert_simps [simp]:
  "py_assert True = Inr ()" "py_assert False = Inl AssertionError"
  by (simp_all add: py_assert_def)

lemma and_then_py_assert:
  "and_then (py_assert b) f = (if b then f () else Inl AssertionError)"
  by (simp add: py_assert_def)

lemma py_assert_eq_Inr [simp]: "py_assert b = Inr u \<longleftrightarrow> b"
  by (simp add: py_assert_def)

lemma py_assert_eq_Inl [simp]: "py_assert b = Inl e \<longleftrightarrow> \<not> b \<and> e = AssertionError"
  by (auto simp add: py_assert_def)

lemma getitem_eq_Inr: "getitem d k = Inr v \<longleftrightarrow> (\<exists>a. d = JObj a \<and> map_of a k = Some v)"
  by (cases d) (auto split: option.splits)

lemma delitem_eq_Inr:
  "delitem d k = Inr d' \<longleftrightarrow> (\<exists>a. d = JObj a \<and> map_of a k \<noteq> None \<and> d' = JObj (AList.delete k a))"
  by (cases d) (auto split: option.splits)

lemma setitem_eq_Inr:
  "setitem d k v = Inr d' \<longleftrightarrow> (\<exists>a. d = JObj a \<and> d' = JObj (AList.update k v a))"
  by (cases d) auto

lemma getitem0_eq_Inr_JObj:
  "getitem0 l = Inr (JObj f) \<longleftrightarrow> (\<exists>rest. l = JArr (JObj f # rest))"
  by (cases l rule: getitem0.cases) auto

lemma placeholders_present_iff:
  "placeholders_present d \<longleftrightarrow>
     (\<exists>a f rest. d = JObj a \<and> map_of a ''rootPath'' = Some (JStr ''$rootPath'')
        \<and> map_of a ''rootUri'' = Some (JStr ''$rootUri'')
        \<and> map_of a ''workspaceFolders'' = Some (JArr (JObj f # rest))
        \<and> map_of f ''uri'' = Some (JStr ''$uri'')
        \<and> map_of f ''name'' = Some (JStr ''$name''))"
  unfolding placeholders_present_def placeholder_fields_def
  by (auto simp: getitem_eq_Inr and_then_eq_Inr getitem0_eq_Inr_JObj)

lemma get_initialize_params_Inr_D:
  assumes "get_initialize_params env path = Inr r"
  shows "\<exists>d. load_initialize_params env = Inr d \<and> placeholders_present d"
  using assms
  unfolding get_initialize_params_def setitem_nested_def placeholders_present_iff
  by (auto simp: and_then_eq_Inr getitem_eq_Inr delitem_eq_Inr setitem_eq_Inr
      getitem0_eq_Inr_JObj update_conv' delete_conv' split: if_splits)


lemma placeholders_readable_iff:
  "placeholders_readable d \<longleftrightarrow>
     (\<exists>a f rest v1 v2 v3 v4. d = JObj a \<and> map_of a ''rootPath'' = Some v1
        \<and> map_of a ''rootUri'' = Some v2
        \<and> map_of a ''workspaceFolders'' = Some (JArr (JObj f # rest))
        \<and> map_of f ''uri'' = Some v3
        \<and> map_of f ''name'' = Some v4)"
proof -
  have isl_iff: "\<And>r :: py_error + json. (\<not> isl r) = (\<exists>v. r = Inr v)"
    by (case_tac r) simp_all
  show ?thesis
    unfolding placeholders_readable_def placeholder_fields_def
    by (auto simp: isl_iff getitem_eq_Inr and_then_eq_Inr getitem0_eq_Inr_JObj)
qed

lemma get_initialize_params_AssertionError:
  assumes "load_initialize_params env = Inr d"
    and "\<not> isl (delitem d ''_description'')"
    and "placeholders_readable d"
    and "as_uri env path = Inr u"
    and "\<not> placeholders_present d"
  shows "get_initialize_params env path = Inl AssertionError"
proof -
  from assms(3) obtain a f rest v1 v2 v3 v4 where d: "d = JObj a"
    and v1: "map_of a ''rootPath'' = Some v1"
    and v2: "map_of a ''rootUri'' = Some v2"
    and wf: "map_of a ''workspaceFolders'' = Some (JArr (JObj f # rest))"
    and v3: "map_of f ''uri'' = Some v3"
    and v4: "map_of f ''name'' = Some v4"
    unfolding placeholders_readable_iff by blast
  from assms(2) d have descr: "map_of a ''_description'' \<noteq> None"
    by (auto split: option.splits)
  from assms(5) d v1 v2 wf v3 v4
  have neq: "v1 \<noteq> JStr ''$rootPath'' \<or> v2 \<noteq> JStr ''$rootUri'' \<or> v3 \<noteq> JStr ''$uri''
      \<or> v4 \<noteq> JStr ''$name''"
    unfolding placeholders_present_iff by auto
  from descr obtain dv where dv: "map_of a ''_description'' = Some dv"
    by blast
  show ?thesis
    using assms(1,4) d v1 v2 wf v3 v4 dv neq
    by (auto simp: get_initialize_params_def setitem_nested_def update_conv' delete_conv'
        and_then_py_assert)
qed



subsection \<open>The initialize parameters\<close>

text \<open>
  Claim C2. For every absolute repository path (one \<^verbatim>\<open>as_uri\<close> accepts, with file URI
  \<open>u\<close>), and a template that has the \<^verbatim>\<open>_description\<close> key and the four placeholders,
  \<^verbatim>\<open>_get_initialize_params\<close> returns the template with \<^verbatim>\<open>_description\<close> removed,
  \<^verbatim>\<open>processId\<close> the process id, \<^verbatim>\<open>rootPath\<close> the path, \<^verbatim>\<open>rootUri\<close> its URI, and in
  \<^verbatim>\<open>workspaceFolders[0]\<close> the \<^verbatim>\<open>uri\<close> that URI and the \<^verbatim>\<open>name\<close> the basename of the
  path; every other key of the template, every other key of \<^verbatim>\<open>workspaceFolders[0]\<close> and
  the other workspace folders keep their values.
\<close>

theorem get_initialize_params_substitutes:
  assumes tmpl: "load_initialize_params env = Inr (JObj d)"
    and descr: "map_of d ''_description'' = Some descr"
    and rp: "map_of d ''rootPath'' = Some (JStr ''$rootPath'')"
    and ru: "map_of d ''rootUri'' = Some (JStr ''$rootUri'')"
    and wf: "map_of d ''workspaceFolders'' = Some (JArr (JObj f # rest))"
    and fu: "map_of f ''uri'' = Some (JStr ''$uri'')"
    and fn: "map_of f ''name'' = Some (JStr ''$name'')"
    and uri: "as_uri env path = Inr u"
  shows "\<exists>d' f'. get_initialize_params env path = Inr (JObj d')
     \<and> map_of d' = (map_of d)(''_description'' := None,
          ''processId'' \<mapsto> JInt (getpid env),
          ''rootPath'' \<mapsto> JStr path, ''rootUri'' \<mapsto> JStr u,
          ''workspaceFolders'' \<mapsto> JArr (JObj f' # rest))
     \<and> map_of f' = (map_of f)(''uri'' \<mapsto> JStr u, ''name'' \<mapsto> JStr (basename path))"
proof -
  let ?f' = "AList.update ''name'' (JStr (basename path)) (AList.update ''uri'' (JStr u) f)"
  let ?d' = "AList.update ''workspaceFolders'' (JArr (JObj ?f' # rest))
        (AList.update ''workspaceFolders'' (JArr (JObj (AList.update ''uri'' (JStr u) f) # rest))
        (AList.update ''rootUri'' (JStr u) (AList.update ''rootPath'' (JStr path)
        (AList.update ''processId'' (JInt (getpid env)) (AList.delete ''_description'' d)))))"
  have res: "get_initialize_params env path = Inr (JObj ?d')"
    using assms
    by (simp add: get_initialize_params_def setitem_nested_def update_conv' delete_conv')
  have f': "map_of ?f' = (map_of f)(''uri'' \<mapsto> JStr u, ''name'' \<mapsto> JStr (basename path))"
    by (simp add: update_conv')
  have d': "map_of ?d' = (map_of d)(''_description'' := None,
          ''processId'' \<mapsto> JInt (getpid env),
          ''rootPath'' \<mapsto> JStr path, ''rootUri'' \<mapsto> JStr u,
          ''workspaceFolders'' \<mapsto> JArr (JObj ?f' # rest))"
    by (simp add: update_conv' delete_conv')
  from res d' f' show ?thesis
    by blast
qed

lemma example_get_initialize_params:
  "get_initialize_params (example_runtime example_template r) ''/home/u/repo'' = Inr example_params"
  by (simp add: get_initialize_params_def setitem_nested_def example_runtime_def
      example_template_def example_params_def starts_with_def basename_def)

theorem get_initialize_params_substitutes_witness:
  "\<exists>d' f'. get_initialize_params (example_runtime example_template JNull) ''/home/u/repo''
        = Inr (JObj d')
     \<and> map_of d' ''_description'' = None
     \<and> map_of d' ''processId'' = Some (JInt 4242)
     \<and> map_of d' ''rootPath'' = Some (JStr ''/home/u/repo'')
     \<and> map_of d' ''rootUri'' = Some (JStr ''file:///home/u/repo'')
     \<and> map_of d' ''capabilities'' = Some (JObj [])
     \<and> map_of d' ''workspaceFolders'' = Some (JArr [JObj f'])
     \<and> map_of f' ''uri'' = Some (JStr ''file:///home/u/repo'')
     \<and> map_of f' ''name'' = Some (JStr ''repo'')"
proof -
  let ?env = "example_runtime example_template JNull"
  let ?d = "[(''_description'', JStr ''parameters of the initialize request''),
           (''processId'', JStr ''os.getpid()''),
           (''rootPath'', JStr ''$rootPath''),
           (''rootUri'', JStr ''$rootUri''),
           (''capabilities'', JObj []),
           (''workspaceFolders'',
              JArr [JObj [(''uri'', JStr ''$uri''), (''name'', JStr ''$name'')]])]"
  have "\<exists>d' f'. get_initialize_params ?env ''/home/u/repo'' = Inr (JObj d')
     \<and> map_of d' = (map_of ?d)(''_description'' := None,
          ''processId'' \<mapsto> JInt (getpid ?env),
          ''rootPath'' \<mapsto> JStr ''/home/u/repo'', ''rootUri'' \<mapsto> JStr ''file:///home/u/repo'',
          ''workspaceFolders'' \<mapsto> JArr (JObj f' # []))
     \<and> map_of f' = (map_of [(''uri'', JStr ''$uri''), (''name'', JStr ''$name'')])
          (''uri'' \<mapsto> JStr ''file:///home/u/repo'',
           ''name'' \<mapsto> JStr (basename ''/home/u/repo''))"
    by (rule get_initialize_params_substitutes [where descr = "JStr ''parameters of the initialize request''"])
      (simp_all add: example_runtime_def example_template_def starts_with_def)
  then obtain d' f' where "get_initialize_params ?env ''/home/u/repo'' = Inr (JObj d')"
     and "map_of d' = (map_of ?d)(''_description'' := None,
          ''processId'' \<mapsto> JInt (getpid ?env),
          ''rootPath'' \<mapsto> JStr ''/home/u/repo'', ''rootUri'' \<mapsto> JStr ''file:///home/u/repo'',
          ''workspaceFolders'' \<mapsto> JArr (JObj f' # []))"
     and "map_of f' = (map_of [(''uri'', JStr ''$uri''), (''name'', JStr ''$name'')])
          (''uri'' \<mapsto> JStr ''file:///home/u/repo'',
           ''name'' \<mapsto> JStr (basename ''/home/u/repo''))"
    by blast
  then show ?thesis
    by (intro exI [of _ d'] exI [of _ f']) (simp add: example_runtime_def basename_def)
qed

text \<open>
  Claim C9. \<^verbatim>\<open>_get_initialize_params\<close> returns parameters only for a template that holds
  all four placeholders; and for a template with a \<^verbatim>\<open>_description\<close> in which the four
  compared fields exist and one of them is not its placeholder, it raises
  \<^verbatim>\<open>AssertionError\<close> (the path being one \<^verbatim>\<open>as_uri\<close> accepts).
\<close>

theorem get_initialize_params_requires_placeholders:
  "(get_initialize_params env path = Inr r \<longrightarrow>
      (\<exists>d. load_initialize_params env = Inr d \<and> placeholders_present d))
   \<and> (load_initialize_params env = Inr d \<and> \<not> isl (delitem d ''_description'')
        \<and> placeholders_readable d \<and> as_uri env path = Inr u \<and> \<not> placeholders_present d \<longrightarrow>
      get_initialize_params env path = Inl AssertionError)"
  using get_initialize_params_Inr_D get_initialize_params_AssertionError
  by blast

theorem get_initialize_params_requires_placeholders_witness:
  "get_initialize_params (example_runtime example_template JNull) ''/home/u/repo''
       = Inr example_params
   \<and> placeholders_present example_template
   \<and> load_initialize_params (example_runtime example_bad_template JNull) = Inr example_bad_template
   \<and> \<not> isl (delitem example_bad_template ''_description'')
   \<and> placeholders_readable example_bad_template
   \<and> as_uri (example_runtime example_bad_template JNull) ''/home/u/repo''
        = Inr ''file:///home/u/repo''
   \<and> \<not> placeholders_present example_bad_template
   \<and> get_initialize_params (example_runtime example_bad_template JNull) ''/home/u/repo''
        = Inl AssertionError"
  using get_initialize_params_requires_placeholders
    [of "example_runtime example_template JNull" "''/home/u/repo''" example_params
        example_template "''file:///home/u/repo''"]
    get_initialize_params_requires_placeholders
    [of "example_runtime example_bad_template JNull" "''/home/u/repo''" example_params
        example_bad_template "''file:///home/u/repo''"]
    example_get_initialize_params [of JNull]
  by (simp add: example_runtime_def example_template_def example_bad_template_def
      placeholders_present_def placeholders_readable_def placeholder_fields_def starts_with_def)


subsection \<open>The session\<close>


lemma trace_emit [simp]: "trace (emit e s) = trace s @ [e]"
  by (simp add: emit_def)

lemma emit_fields [simp]:
  "on_request_handlers (emit e s) = on_request_handlers s"
  "on_notification_handlers (emit e s) = on_notification_handlers s"
  "completions_available (emit e s) = completions_available s"
  "server_ready (emit e s) = server_ready s"
  "initialize_searcher_command_available (emit e s) = initialize_searcher_command_available s"
  "repository_root_path (emit e s) = repository_root_path s"
  by (simp_all add: emit_def)

lemma trace_set_signal [simp]: "trace (set_signal g s) = trace s @ [Set_signal g]"
  by (cases g) simp_all

lemma set_signal_fields [simp]:
  "on_request_handlers (set_signal g s) = on_request_handlers s"
  "on_notification_handlers (set_signal g s) = on_notification_handlers s"
  "completions_available (set_signal g s) = (g = Completions_available \<or> completions_available s)"
  "server_ready (set_signal g s) = (g = Server_ready \<or> server_ready s)"
  "initialize_searcher_command_available (set_signal g s) =
     (if g = Initialize_searcher_command_available then Some True
      else initialize_searcher_command_available s)"
  "repository_root_path (set_signal g s) = repository_root_path s"
  by (cases g; simp)+

lemma trace_register_handlers:
  "trace (register_handlers s) = trace s @
     [On_request ''client/registerCapability'' Ref_register_capability_handler,
      On_notification ''window/logMessage'' Ref_window_log_message,
      On_request ''workspace/executeClientCommand'' Ref_execute_client_command_handler,
      On_notification ''$/progress'' Ref_do_nothing,
      On_notification ''textDocument/publishDiagnostics'' Ref_do_nothing]"
  by (simp add: register_handlers_def on_request_def on_notification_def)

lemma register_handlers_fields [simp]:
  "completions_available (register_handlers s) = completions_available s"
  "server_ready (register_handlers s) = server_ready s"
  "initialize_searcher_command_available (register_handlers s) =
     initialize_searcher_command_available s"
  "repository_root_path (register_handlers s) = repository_root_path s"
  by (simp_all add: register_handlers_def on_request_def on_notification_def)

lemma register_handlers_tables:
  "map_of (on_request_handlers (register_handlers s)) =
     (map_of (on_request_handlers s))
       (''client/registerCapability'' \<mapsto> Ref_register_capability_handler,
        ''workspace/executeClientCommand'' \<mapsto> Ref_execute_client_command_handler)"
  "map_of (on_notification_handlers (register_handlers s)) =
     (map_of (on_notification_handlers s))
       (''window/logMessage'' \<mapsto> Ref_window_log_message,
        ''$/progress'' \<mapsto> Ref_do_nothing,
        ''textDocument/publishDiagnostics'' \<mapsto> Ref_do_nothing)"
  by (simp_all add: register_handlers_def on_request_def on_notification_def update_conv')

text \<open>The handshake changes neither handler table and only appends to the trace.\<close>

lemma handshake_tables:
  "on_request_handlers (snd (handshake env s)) = on_request_handlers s"
  "on_notification_handlers (snd (handshake env s)) = on_notification_handlers s"
  by (simp_all add: handshake_def Let_def split: option.splits sum.splits)

lemma handshake_trace:
  "\<exists>rest. trace (snd (handshake env s)) =
     trace s @ Logger_log ''Starting TypeScript server process'' # Server_start # rest"
  by (simp add: handshake_def Let_def split: option.splits sum.splits)

lemma start_server_enter_snd:
  "snd (start_server_enter env s) =
     emit (if isl (fst (handshake env (emit Super_enter (register_handlers s))))
           then Super_exit else Yield)
       (snd (handshake env (emit Super_enter (register_handlers s))))"
  by (simp add: start_server_enter_def split: prod.splits sum.splits)

text \<open>
  Claim C4. Whatever the server and the template do, \<^verbatim>\<open>start_server\<close> first registers the
  five baseline handlers, in the order of the source: \<^verbatim>\<open>client/registerCapability\<close>,
  \<^verbatim>\<open>window/logMessage\<close>, \<^verbatim>\<open>workspace/executeClientCommand\<close>, \<^verbatim>\<open>$/progress\<close> and
  \<^verbatim>\<open>textDocument/publishDiagnostics\<close>. Only then is the server process started, and
  \<open>Yield\<close> (the session ready, in the caller's hands) can only come later still; the five
  entries are in the handler tables when \<^verbatim>\<open>start_server\<close> yields or fails.
\<close>

theorem start_server_registers_baseline_handlers:
  "\<exists>rest. trace (snd (start_server_enter env s)) = trace s @
       [On_request ''client/registerCapability'' Ref_register_capability_handler,
        On_notification ''window/logMessage'' Ref_window_log_message,
        On_request ''workspace/executeClientCommand'' Ref_execute_client_command_handler,
        On_notification ''$/progress'' Ref_do_nothing,
        On_notification ''textDocument/publishDiagnostics'' Ref_do_nothing,
        Super_enter, Logger_log ''Starting TypeScript server process'', Server_start] @ rest
     \<and> map_of (on_request_handlers (snd (start_server_enter env s)))
          ''client/registerCapability'' = Some Ref_register_capability_handler
     \<and> map_of (on_notification_handlers (snd (start_server_enter env s)))
          ''window/logMessage'' = Some Ref_window_log_message
     \<and> map_of (on_request_handlers (snd (start_server_enter env s)))
          ''workspace/executeClientCommand'' = Some Ref_execute_client_command_handler
     \<and> map_of (on_notification_handlers (snd (start_server_enter env s)))
          ''$/progress'' = Some Ref_do_nothing
     \<and> map_of (on_notification_handlers (snd (start_server_enter env s)))
          ''textDocument/publishDiagnostics'' = Some Ref_do_nothing"
proof -
  let ?s1 = "emit Super_enter (register_handlers s)"
  obtain rest where rest: "trace (snd (handshake env ?s1)) =
     trace ?s1 @ Logger_log ''Starting TypeScript server process'' # Server_start # rest"
    using handshake_trace by blast
  let ?last = "if isl (fst (handshake env ?s1)) then Super_exit else Yield"
  have "trace (snd (start_server_enter env s)) = trace s @
       [On_request ''client/registerCapability'' Ref_register_capability_handler,
        On_notification ''window/logMessage'' Ref_window_log_message,
        On_request ''workspace/executeClientCommand'' Ref_execute_client_command_handler,
        On_notification ''$/progress'' Ref_do_nothing,
        On_notification ''textDocument/publishDiagnostics'' Ref_do_nothing,
        Super_enter, Logger_log ''Starting TypeScript server process'', Server_start]
       @ (rest @ [?last])"
    by (simp add: start_server_enter_snd rest trace_register_handlers)
  then show ?thesis
    by (simp add: start_server_enter_snd handshake_tables register_handlers_tables)
qed



lemma check_capabilities_Inr_iff:
  "check_capabilities resp = Inr u \<longleftrightarrow> capabilities_as_expected resp"
  unfolding check_capabilities_def capabilities_as_expected_def text_document_sync_def
    completion_provider_def
  by (cases "getitem resp ''capabilities''"; cases "projr (getitem resp ''capabilities'')")
    (auto simp: and_then_py_assert split: option.splits sum.splits)

lemma check_capabilities_Inl:
  "\<not> capabilities_as_expected resp \<Longrightarrow>
     check_capabilities resp =
       Inl (case text_document_sync resp of Inl e \<Rightarrow> e | Inr v \<Rightarrow> AssertionError)"
  unfolding check_capabilities_def capabilities_as_expected_def text_document_sync_def
    completion_provider_def
  by (cases "getitem resp ''capabilities''"; cases "projr (getitem resp ''capabilities'')")
    (auto simp: and_then_py_assert split: option.splits sum.splits)

lemma text_document_sync_error:
  "text_document_sync resp = Inl e \<Longrightarrow> e = KeyError \<or> e = TypeError"
  unfolding text_document_sync_def
  by (cases resp; cases "projr (getitem resp ''capabilities'')")
    (auto split: option.splits sum.splits)


lemma handshake_success:
  assumes "server_start env = None"
    and "get_initialize_params env (repository_root_path s) = Inr params"
    and "send_initialize env params = Inr resp"
    and "capabilities_as_expected resp"
  shows "handshake env s =
     (Inr (), set_signal Server_ready (set_signal Completions_available
        (emit Notify_initialized (emit (Send_initialize params)
          (emit (Logger_log ''Sending initialize request'')
            (emit Server_start
              (emit (Logger_log ''Starting TypeScript server process'') s)))))))"
  using assms check_capabilities_Inr_iff [of resp "()"]
  by (simp add: handshake_def)

lemma handshake_rejects:
  assumes "server_start env = None"
    and "get_initialize_params env (repository_root_path s) = Inr params"
    and "send_initialize env params = Inr resp"
    and "\<not> capabilities_as_expected resp"
  shows "handshake env s =
     (Inl (case text_document_sync resp of Inl e \<Rightarrow> e | Inr v \<Rightarrow> AssertionError),
      emit (Send_initialize params)
          (emit (Logger_log ''Sending initialize request'')
            (emit Server_start
              (emit (Logger_log ''Starting TypeScript server process'') s))))"
  using assms check_capabilities_Inl [of resp]
  by (simp add: handshake_def)

lemma handshake_Inr_D:
  assumes "fst (handshake env s) = Inr u"
  shows "\<exists>params resp. server_start env = None
     \<and> get_initialize_params env (repository_root_path s) = Inr params
     \<and> send_initialize env params = Inr resp \<and> capabilities_as_expected resp"
  using assms check_capabilities_Inr_iff
  by (auto simp: handshake_def Let_def split: option.splits sum.splits)

text \<open>When the handshake fails it has sent no notification and set no signal.\<close>

lemma handshake_failure_trace:
  assumes "fst (handshake env s) = Inl e"
  shows "\<exists>evs. trace (snd (handshake env s)) = trace s @ evs
     \<and> Notify_initialized \<notin> set evs \<and> Yield \<notin> set evs
     \<and> Set_signal Completions_available \<notin> set evs \<and> Set_signal Server_ready \<notin> set evs"
  using assms
  by (auto simp: handshake_def Let_def split: option.splits sum.splits)

text \<open>
  Claim C5. When \<^verbatim>\<open>start_server\<close> yields the session, the server has answered the
  \<^verbatim>\<open>initialize\<close> request built from the template, and the answer is as the assertions
  ask: its \<^verbatim>\<open>["capabilities"]["textDocumentSync"]\<close> is \<^verbatim>\<open>== 2\<close> and its
  \<^verbatim>\<open>["capabilities"]["completionProvider"]\<close> is there and \<^verbatim>\<open>==\<close> the expected document.
  The trace then ends with the request, the \<^verbatim>\<open>initialized\<close> notification, the two
  readiness signals set and the yield, in this order, and both signals are set.
  Conversely, if the notification, one of the two signals or the yield is among the
  events of this call, the call yields, on an answer that is as the assertions ask.
\<close>

theorem start_server_ready_only_after_capability_check:
  "(fst (start_server_enter env s) = Inr () \<longrightarrow>
      (\<exists>params resp sync provider pre.
           get_initialize_params env (repository_root_path s) = Inr params
         \<and> send_initialize env params = Inr resp
         \<and> capabilities_as_expected resp
         \<and> text_document_sync resp = Inr sync \<and> py_eq sync (JInt 2)
         \<and> completion_provider resp = Inr provider
         \<and> py_eq provider expected_completion_provider
         \<and> trace (snd (start_server_enter env s)) =
             pre @ [Send_initialize params, Notify_initialized,
                    Set_signal Completions_available, Set_signal Server_ready, Yield]
         \<and> completions_available (snd (start_server_enter env s))
         \<and> server_ready (snd (start_server_enter env s))))
   \<and> (list_ex (\<lambda>e. e = Notify_initialized \<or> e = Set_signal Completions_available
                  \<or> e = Set_signal Server_ready \<or> e = Yield)
         (drop (length (trace s)) (trace (snd (start_server_enter env s)))) \<longrightarrow>
       fst (start_server_enter env s) = Inr ()
       \<and> (\<exists>params resp. send_initialize env params = Inr resp
             \<and> capabilities_as_expected resp))"
proof -
  let ?s1 = "emit Super_enter (register_handlers s)"
  let ?P = "\<lambda>e. e = Notify_initialized \<or> e = Set_signal Completions_available
                  \<or> e = Set_signal Server_ready \<or> e = Yield"
  have yields: "\<exists>params resp sync provider pre.
           get_initialize_params env (repository_root_path s) = Inr params
         \<and> send_initialize env params = Inr resp
         \<and> capabilities_as_expected resp
         \<and> text_document_sync resp = Inr sync \<and> py_eq sync (JInt 2)
         \<and> completion_provider resp = Inr provider
         \<and> py_eq provider expected_completion_provider
         \<and> trace (snd (start_server_enter env s)) =
             pre @ [Send_initialize params, Notify_initialized,
                    Set_signal Completions_available, Set_signal Server_ready, Yield]
         \<and> completions_available (snd (start_server_enter env s))
         \<and> server_ready (snd (start_server_enter env s))"
    if "fst (start_server_enter env s) = Inr ()"
  proof -
    from that have ok: "fst (handshake env ?s1) = Inr ()"
      by (auto simp: start_server_enter_def split: prod.splits sum.splits)
    then obtain params resp where p: "server_start env = None"
        "get_initialize_params env (repository_root_path ?s1) = Inr params"
        "send_initialize env params = Inr resp" "capabilities_as_expected resp"
      using handshake_Inr_D by blast
    note hs = handshake_success [OF p]
    from p(4) obtain sync provider where c: "text_document_sync resp = Inr sync"
        "py_eq sync (JInt 2)" "completion_provider resp = Inr provider"
        "py_eq provider expected_completion_provider"
      by (auto simp: capabilities_as_expected_def split: sum.splits)
    from p(2) have q: "get_initialize_params env (repository_root_path s) = Inr params"
      by simp
    have "trace (snd (start_server_enter env s)) =
        (trace ?s1 @ [Logger_log ''Starting TypeScript server process'', Server_start,
           Logger_log ''Sending initialize request''])
        @ [Send_initialize params, Notify_initialized,
                      Set_signal Completions_available, Set_signal Server_ready, Yield]"
      by (simp add: start_server_enter_def hs)
    moreover have "completions_available (snd (start_server_enter env s))"
      "server_ready (snd (start_server_enter env s))"
      by (simp_all add: start_server_enter_def hs)
    ultimately show ?thesis
      using q p(3,4) c by blast
  qed
  have events: "fst (start_server_enter env s) = Inr ()"
    if ex: "list_ex ?P (drop (length (trace s)) (trace (snd (start_server_enter env s))))"
  proof (cases "fst (handshake env ?s1)")
    case (Inr u)
    then show ?thesis
      by (auto simp: start_server_enter_def split: prod.splits sum.splits)
  next
    case (Inl e)
    then obtain evs where evs: "trace (snd (handshake env ?s1)) = trace ?s1 @ evs"
      "Notify_initialized \<notin> set evs" "Yield \<notin> set evs"
      "Set_signal Completions_available \<notin> set evs" "Set_signal Server_ready \<notin> set evs"
      using handshake_failure_trace by blast
    from Inl have "trace (snd (start_server_enter env s)) =
        trace (snd (handshake env ?s1)) @ [Super_exit]"
      by (simp add: start_server_enter_snd)
    with evs(1) have "drop (length (trace s)) (trace (snd (start_server_enter env s))) =
       [On_request ''client/registerCapability'' Ref_register_capability_handler,
        On_notification ''window/logMessage'' Ref_window_log_message,
        On_request ''workspace/executeClientCommand'' Ref_execute_client_command_handler,
        On_notification ''$/progress'' Ref_do_nothing,
        On_notification ''textDocument/publishDiagnostics'' Ref_do_nothing,
        Super_enter] @ evs @ [Super_exit]"
      by (simp add: trace_register_handlers)
    with ex evs(2-5) have False
      by (auto simp: list_ex_iff)
    then show ?thesis ..
  qed
  show ?thesis
  proof (intro conjI impI)
    assume "fst (start_server_enter env s) = Inr ()"
    then show "\<exists>params resp sync provider pre.
           get_initialize_params env (repository_root_path s) = Inr params
         \<and> send_initialize env params = Inr resp
         \<and> capabilities_as_expected resp
         \<and> text_document_sync resp = Inr sync \<and> py_eq sync (JInt 2)
         \<and> completion_provider resp = Inr provider
         \<and> py_eq provider expected_completion_provider
         \<and> trace (snd (start_server_enter env s)) =
             pre @ [Send_initialize params, Notify_initialized,
                    Set_signal Completions_available, Set_signal Server_ready, Yield]
         \<and> completions_available (snd (start_server_enter env s))
         \<and> server_ready (snd (start_server_enter env s))"
      by (rule yields)
  next
    assume ex: "list_ex ?P (drop (length (trace s)) (trace (snd (start_server_enter env s))))"
    then show "fst (start_server_enter env s) = Inr ()"
      by (rule events)
    from yields [OF events [OF ex]]
    show "\<exists>params resp. send_initialize env params = Inr resp \<and> capabilities_as_expected resp"
      by blast
  qed
qed

lemma example_capabilities:
  "capabilities_as_expected (example_response (JInt 2) (JBool True))"
  "capabilities_as_expected (example_response (JInt 2) (JInt 1))"
  "\<not> capabilities_as_expected (example_response (JInt 1) (JBool True))"
  "text_document_sync (example_response (JInt 1) (JBool True)) = Inr (JInt 1)"
  by (simp_all add: capabilities_as_expected_def text_document_sync_def completion_provider_def
      example_response_def expected_completion_provider_def)

lemma example_runtime_fields:
  "server_start (example_runtime t r) = None"
  "send_initialize (example_runtime t r) p = Inr r"
  "server_shutdown (example_runtime t r) = None"
  "server_stop (example_runtime t r) = None"
  "repository_root_path example_server = ''/home/u/repo''"
  "trace example_server = []"
  by (simp_all add: example_runtime_def example_server_def)

lemma example_good_enter:
  "fst (start_server_enter example_good_runtime example_server) = Inr ()"
  "trace (snd (start_server_enter example_good_runtime example_server)) =
     [On_request ''client/registerCapability'' Ref_register_capability_handler,
      On_notification ''window/logMessage'' Ref_window_log_message,
      On_request ''workspace/executeClientCommand'' Ref_execute_client_command_handler,
      On_notification ''$/progress'' Ref_do_nothing,
      On_notification ''textDocument/publishDiagnostics'' Ref_do_nothing,
      Super_enter, Logger_log ''Starting TypeScript server process'', Server_start,
      Logger_log ''Sending initialize request'', Send_initialize example_params,
      Notify_initialized, Set_signal Completions_available, Set_signal Server_ready, Yield]"
proof -
  let ?s1 = "emit Super_enter (register_handlers example_server)"
  have hs: "handshake example_good_runtime ?s1 =
     (Inr (), set_signal Server_ready (set_signal Completions_available
        (emit Notify_initialized (emit (Send_initialize example_params)
          (emit (Logger_log ''Sending initialize request'')
            (emit Server_start
              (emit (Logger_log ''Starting TypeScript server process'') ?s1)))))))"
    unfolding example_good_runtime_def
    by (rule handshake_success [where resp = "example_response (JInt 2) (JBool True)"])
      (simp_all add: example_runtime_fields example_get_initialize_params example_capabilities)
  show "fst (start_server_enter example_good_runtime example_server) = Inr ()"
    by (simp add: start_server_enter_def hs)
  show "trace (snd (start_server_enter example_good_runtime example_server)) =
     [On_request ''client/registerCapability'' Ref_register_capability_handler,
      On_notification ''window/logMessage'' Ref_window_log_message,
      On_request ''workspace/executeClientCommand'' Ref_execute_client_command_handler,
      On_notification ''$/progress'' Ref_do_nothing,
      On_notification ''textDocument/publishDiagnostics'' Ref_do_nothing,
      Super_enter, Logger_log ''Starting TypeScript server process'', Server_start,
      Logger_log ''Sending initialize request'', Send_initialize example_params,
      Notify_initialized, Set_signal Completions_available, Set_signal Server_ready, Yield]"
    by (simp add: start_server_enter_def hs trace_register_handlers example_runtime_fields)
qed

theorem start_server_ready_only_after_capability_check_witness:
  "fst (start_server_enter example_good_runtime example_server) = Inr ()
   \<and> list_ex (\<lambda>e. e = Notify_initialized \<or> e = Set_signal Completions_available
                  \<or> e = Set_signal Server_ready \<or> e = Yield)
         (drop (length (trace example_server))
            (trace (snd (start_server_enter example_good_runtime example_server))))
   \<and> (\<exists>params resp sync provider pre.
           get_initialize_params example_good_runtime (repository_root_path example_server)
             = Inr params
         \<and> send_initialize example_good_runtime params = Inr resp
         \<and> capabilities_as_expected resp
         \<and> text_document_sync resp = Inr sync \<and> py_eq sync (JInt 2)
         \<and> completion_provider resp = Inr provider
         \<and> py_eq provider expected_completion_provider
         \<and> trace (snd (start_server_enter example_good_runtime example_server)) =
             pre @ [Send_initialize params, Notify_initialized,
                    Set_signal Completions_available, Set_signal Server_ready, Yield]
         \<and> completions_available (snd (start_server_enter example_good_runtime example_server))
         \<and> server_ready (snd (start_server_enter example_good_runtime example_server)))"
proof -
  have a: "fst (start_server_enter example_good_runtime example_server) = Inr ()"
    by (rule example_good_enter)
  have b: "list_ex (\<lambda>e. e = Notify_initialized \<or> e = Set_signal Completions_available
                  \<or> e = Set_signal Server_ready \<or> e = Yield)
         (drop (length (trace example_server))
            (trace (snd (start_server_enter example_good_runtime example_server))))"
    by (simp add: example_good_enter example_runtime_fields)
  from a b start_server_ready_only_after_capability_check
    [of example_good_runtime example_server]
  show ?thesis
    by blast
qed

text \<open>
  Claim C1, as amended. When the server has started, the parameters are built and the
  answer to \<^verbatim>\<open>initialize\<close> does not pass the comparison (its
  \<^verbatim>\<open>textDocumentSync\<close> is not \<^verbatim>\<open>== 2\<close>, or its completion provider is absent or not
  \<^verbatim>\<open>==\<close> the expected document, with Python's equality), \<^verbatim>\<open>start_server\<close> raises: an
  \<^verbatim>\<open>AssertionError\<close>, or the \<^verbatim>\<open>KeyError\<close> or \<^verbatim>\<open>TypeError\<close> of reading
  \<^verbatim>\<open>["capabilities"]["textDocumentSync"]\<close> when that cannot be read. It has then sent no
  \<^verbatim>\<open>initialized\<close> notification, set neither readiness signal and not yielded: the trace
  ends with the request and the exit of the base scope.
\<close>

theorem start_server_rejects_unexpected_capabilities:
  assumes "server_start env = None"
    and "get_initialize_params env (repository_root_path s) = Inr params"
    and "send_initialize env params = Inr resp"
    and "\<not> capabilities_as_expected resp"
  shows "fst (start_server_enter env s) =
       Inl (case text_document_sync resp of Inl e \<Rightarrow> e | Inr v \<Rightarrow> AssertionError)
     \<and> fst (start_server_enter env s) \<in> {Inl AssertionError, Inl KeyError, Inl TypeError}
     \<and> trace (snd (start_server_enter env s)) = trace (register_handlers s) @
         [Super_enter, Logger_log ''Starting TypeScript server process'', Server_start,
          Logger_log ''Sending initialize request'', Send_initialize params, Super_exit]
     \<and> completions_available (snd (start_server_enter env s)) = completions_available s
     \<and> server_ready (snd (start_server_enter env s)) = server_ready s"
proof -
  let ?s1 = "emit Super_enter (register_handlers s)"
  have "get_initialize_params env (repository_root_path ?s1) = Inr params"
    using assms(2) by simp
  note hs = handshake_rejects [OF assms(1) this assms(3,4)]
  have "(case text_document_sync resp of Inl e \<Rightarrow> e | Inr v \<Rightarrow> AssertionError)
      \<in> {AssertionError, KeyError, TypeError}"
    using text_document_sync_error [of resp] by (auto split: sum.splits)
  then show ?thesis
    by (auto simp: start_server_enter_def hs)
qed

theorem start_server_rejects_unexpected_capabilities_witness:
  "server_start example_sync1_runtime = None
   \<and> get_initialize_params example_sync1_runtime (repository_root_path example_server)
        = Inr example_params
   \<and> send_initialize example_sync1_runtime example_params
        = Inr (example_response (JInt 1) (JBool True))
   \<and> \<not> capabilities_as_expected (example_response (JInt 1) (JBool True))
   \<and> fst (start_server_enter example_sync1_runtime example_server) = Inl AssertionError
   \<and> trace (snd (start_server_enter example_sync1_runtime example_server)) =
       [On_request ''client/registerCapability'' Ref_register_capability_handler,
        On_notification ''window/logMessage'' Ref_window_log_message,
        On_request ''workspace/executeClientCommand'' Ref_execute_client_command_handler,
        On_notification ''$/progress'' Ref_do_nothing,
        On_notification ''textDocument/publishDiagnostics'' Ref_do_nothing,
        Super_enter, Logger_log ''Starting TypeScript server process'', Server_start,
        Logger_log ''Sending initialize request'', Send_initialize example_params, Super_exit]
   \<and> \<not> completions_available (snd (start_server_enter example_sync1_runtime example_server))
   \<and> \<not> server_ready (snd (start_server_enter example_sync1_runtime example_server))"
proof -
  have h: "server_start example_sync1_runtime = None"
    "get_initialize_params example_sync1_runtime (repository_root_path example_server)
        = Inr example_params"
    "send_initialize example_sync1_runtime example_params
        = Inr (example_response (JInt 1) (JBool True))"
    "\<not> capabilities_as_expected (example_response (JInt 1) (JBool True))"
    by (simp_all add: example_sync1_runtime_def example_runtime_fields
        example_get_initialize_params example_capabilities)
  from start_server_rejects_unexpected_capabilities [OF h] h show ?thesis
    by (simp add: example_capabilities trace_register_handlers example_runtime_fields
        example_server_def)
qed

text \<open>An answer with \<^verbatim>\<open>"resolveProvider": 1\<close> passes the assertions.\<close>

lemma example_resolve1_enter:
  "fst (start_server_enter example_resolve1_runtime example_server) = Inr ()"
proof -
  let ?s1 = "emit Super_enter (register_handlers example_server)"
  have "fst (handshake example_resolve1_runtime ?s1) = Inr ()"
    unfolding example_resolve1_runtime_def
    by (subst handshake_success [where resp = "example_response (JInt 2) (JInt 1)"])
      (simp_all add: example_runtime_fields example_get_initialize_params example_capabilities)
  then show ?thesis
    by (auto simp: start_server_enter_def split: prod.splits sum.splits)
qed

text \<open>
  The claim as first stated fails twice. An answer that says \<^verbatim>\<open>"resolveProvider": 1\<close>
  instead of \<^verbatim>\<open>true\<close> is accepted (\<^verbatim>\<open>1 == True\<close> in Python) and the session becomes
  ready; and an answer with sync mode 1 is rejected with \<^verbatim>\<open>AssertionError\<close>, the
  exception of \<^verbatim>\<open>assert\<close>, not with a \<^verbatim>\<open>ProtocolError\<close>.
\<close>

theorem start_server_capability_claim_counterexample:
  "completion_provider (example_response (JInt 2) (JInt 1)) =
      Inr (JObj [(''triggerCharacters'',
                   JArr [JStr ''.'', JStr [CHR 0x22], JStr [CHR 0x27], JStr ''/'',
                         JStr ''@'', JStr ''<'']),
                 (''resolveProvider'', JInt 1)])
   \<and> fst (start_server_enter example_resolve1_runtime example_server) = Inr ()
   \<and> text_document_sync (example_response (JInt 1) (JBool True)) = Inr (JInt 1)
   \<and> fst (start_server_enter example_sync1_runtime example_server) = Inl AssertionError
   \<and> fst (start_server_enter example_sync1_runtime example_server) \<noteq> Inl ProtocolError"
proof -
  have h: "server_start example_sync1_runtime = None"
    "get_initialize_params example_sync1_runtime (repository_root_path example_server)
        = Inr example_params"
    "send_initialize example_sync1_runtime example_params
        = Inr (example_response (JInt 1) (JBool True))"
    "\<not> capabilities_as_expected (example_response (JInt 1) (JBool True))"
    by (simp_all add: example_sync1_runtime_def example_runtime_fields
        example_get_initialize_params example_capabilities)
  let ?s1 = "emit Super_enter (register_handlers example_server)"
  have "get_initialize_params example_sync1_runtime (repository_root_path ?s1)
      = Inr example_params"
    using h(2) by simp
  note hs = handshake_rejects [OF h(1) this h(3,4)]
  have "fst (start_server_enter example_sync1_runtime example_server) = Inl AssertionError"
    by (simp add: start_server_enter_def hs example_capabilities)
  moreover have "completion_provider (example_response (JInt 2) (JInt 1)) =
      Inr (JObj [(''triggerCharacters'',
                   JArr [JStr ''.'', JStr [CHR 0x22], JStr [CHR 0x27], JStr ''/'',
                         JStr ''@'', JStr ''<'']),
                 (''resolveProvider'', JInt 1)])"
    by (simp add: completion_provider_def example_response_def)
  ultimately show ?thesis
    by (simp add: example_resolve1_enter example_capabilities)
qed



subsection \<open>Leaving the caller's scope\<close>

lemma example_good_enter_state:
  "start_server_enter example_good_runtime example_server =
     (Inr (), snd (start_server_enter example_good_runtime example_server))"
  using example_good_enter(1) by (cases "start_server_enter example_good_runtime example_server") simp

lemma start_server_body_raises:
  "fst (start_server env (Body_raises e) s) \<noteq> None"
  "filter (\<lambda>x. x = Server_shutdown \<or> x = Server_stop)
       (trace (snd (start_server env (Body_raises e) s))) =
     filter (\<lambda>x. x = Server_shutdown \<or> x = Server_stop) (trace s)"
  by (auto simp: start_server_def start_server_exit_def start_server_enter_def handshake_def
      Let_def trace_register_handlers split: prod.splits sum.splits option.splits)

lemma start_server_body_returns:
  assumes "fst (start_server_enter env s) = Inr ()"
    and "server_shutdown env = None" and "server_stop env = None"
  shows "start_server env Body_returns s =
     (None, emit Super_exit (emit Server_stop (emit Server_shutdown
        (snd (start_server_enter env s)))))"
  using assms
  by (cases "start_server_enter env s") (simp add: start_server_def start_server_exit_def)

text \<open>
  Claim C3, on the code. The docstring of \<^verbatim>\<open>start_server\<close> promises the shutdown on exit
  from the scope. When the caller's block is cancelled (or raises), the session that had
  become ready is left without \<^verbatim>\<open>server.shutdown()\<close> and without \<^verbatim>\<open>server.stop()\<close>:
  the trace ends with the yield and the exit of the base scope. When the block returns,
  the shutdown request and then the stop are there, once each.
\<close>

theorem start_server_body_raises_skips_shutdown:
  "fst (start_server example_good_runtime (Body_raises CancelledError) example_server)
      = Some CancelledError
   \<and> trace (snd (start_server example_good_runtime (Body_raises CancelledError) example_server)) =
     [On_request ''client/registerCapability'' Ref_register_capability_handler,
      On_notification ''window/logMessage'' Ref_window_log_message,
      On_request ''workspace/executeClientCommand'' Ref_execute_client_command_handler,
      On_notification ''$/progress'' Ref_do_nothing,
      On_notification ''textDocument/publishDiagnostics'' Ref_do_nothing,
      Super_enter, Logger_log ''Starting TypeScript server process'', Server_start,
      Logger_log ''Sending initialize request'', Send_initialize example_params,
      Notify_initialized, Set_signal Completions_available, Set_signal Server_ready, Yield,
      Super_exit]
   \<and> trace (snd (start_server example_good_runtime Body_returns example_server)) =
     [On_request ''client/registerCapability'' Ref_register_capability_handler,
      On_notification ''window/logMessage'' Ref_window_log_message,
      On_request ''workspace/executeClientCommand'' Ref_execute_client_command_handler,
      On_notification ''$/progress'' Ref_do_nothing,
      On_notification ''textDocument/publishDiagnostics'' Ref_do_nothing,
      Super_enter, Logger_log ''Starting TypeScript server process'', Server_start,
      Logger_log ''Sending initialize request'', Send_initialize example_params,
      Notify_initialized, Set_signal Completions_available, Set_signal Server_ready, Yield,
      Server_shutdown, Server_stop, Super_exit]"
proof -
  have r: "start_server example_good_runtime (Body_raises CancelledError) example_server =
      (Some CancelledError,
       emit Super_exit (snd (start_server_enter example_good_runtime example_server)))"
    by (subst start_server_def, subst example_good_enter_state)
      (simp add: start_server_exit_def)
  have n: "start_server example_good_runtime Body_returns example_server =
     (None, emit Super_exit (emit Server_stop (emit Server_shutdown
        (snd (start_server_enter example_good_runtime example_server)))))"
    by (rule start_server_body_returns [OF example_good_enter(1)])
      (simp_all add: example_good_runtime_def example_runtime_fields)
  show ?thesis
    by (simp add: r n example_good_enter)
qed

subsection \<open>Creating the plugin\<close>


lemma starts_with_iff: "starts_with s p \<longleftrightarrow> (\<exists>post. s = p @ post)"
proof
  assume "starts_with s p"
  then have "s = p @ drop (length p) s"
    by (metis append_take_drop_id starts_with_def)
  then show "\<exists>post. s = p @ post" ..
next
  assume "\<exists>post. s = p @ post"
  then show "starts_with s p"
    by (auto simp: starts_with_def)
qed

lemma str_find_from_none_iff:
  "str_find_from i s sub = - 1 \<longleftrightarrow> \<not> (\<exists>pre post. s = pre @ sub @ post)"
proof (induction s arbitrary: i)
  case Nil
  then show ?case by auto
next
  case (Cons c s)
  show ?case
  proof (cases "starts_with (c # s) sub")
    case True
    then obtain post where "c # s = [] @ sub @ post"
      by (auto simp: starts_with_iff)
    then have "\<exists>pre post. c # s = pre @ sub @ post"
      by blast
    with True show ?thesis by simp
  next
    case False
    have "(\<exists>pre post. c # s = pre @ sub @ post) \<longleftrightarrow> (\<exists>pre post. s = pre @ sub @ post)"
    proof
      assume "\<exists>pre post. c # s = pre @ sub @ post"
      then obtain pre post where eq: "c # s = pre @ sub @ post" by blast
      with False have "pre \<noteq> []"
        by (auto simp: starts_with_iff)
      then obtain pre' where "pre = c # pre'"
        using eq by (cases pre) auto
      with eq have "s = pre' @ sub @ post" by simp
      then show "\<exists>pre post. s = pre @ sub @ post" by blast
    next
      assume "\<exists>pre post. s = pre @ sub @ post"
      then obtain pre post where "s = pre @ sub @ post" by blast
      then have "c # s = (c # pre) @ sub @ post" by simp
      then show "\<exists>pre post. c # s = pre @ sub @ post" by blast
    qed
    with False Cons.IH [of "Suc i"] show ?thesis by simp
  qed
qed

lemma str_find_none_iff:
  "str_find s sub = - 1 \<longleftrightarrow> \<not> (\<exists>pre post. s = pre @ sub @ post)"
  by (simp add: str_find_def str_find_from_none_iff)

lemma setup_without_site_packages:
  assumes "\<not> (\<exists>pre post. module_dir h = pre @ ''site-packages/'' @ post)"
  shows "isl (fst (setup_runtime_dependencies h st))"
    and "snd (setup_runtime_dependencies h st) = st"
  using assms str_find_none_iff [of "module_dir h" "''site-packages/''"]
  by (auto simp: setup_runtime_dependencies_def split: sum.splits)

lemma setup_without_site_packages_ValueError:
  assumes "get_platform_id h = Inr p" and "p \<in> set valid_platforms"
    and "load_dependencies h = Inr deps"
    and "\<not> (\<exists>pre post. module_dir h = pre @ ''site-packages/'' @ post)"
  shows "setup_runtime_dependencies h st = (Inl ValueError, st)"
  using assms str_find_none_iff [of "module_dir h" "''site-packages/''"]
  by (simp add: setup_runtime_dependencies_def)

text \<open>
  Claim C10. When the directory of the module does not contain \<^verbatim>\<open>site-packages/\<close>,
  \<^verbatim>\<open>setup_runtime_dependencies\<close> raises, and so does the construction of the plugin,
  whatever is installed. When the platform is a supported one and
  \<^verbatim>\<open>runtime_dependencies.json\<close> has been read (the two blocks that come first), the
  exception is \<^verbatim>\<open>ValueError\<close>, also with \<^verbatim>\<open>node\<close>, \<^verbatim>\<open>npm\<close> and the executable all
  present; nothing has been created or run by then.
\<close>

theorem construction_requires_site_packages:
  "(\<not> (\<exists>pre post. module_dir h = pre @ ''site-packages/'' @ post) \<longrightarrow>
      isl (fst (setup_runtime_dependencies h st))
      \<and> isl (fst (TypeScriptLanguageServer h root st)))
   \<and> (get_platform_id h = Inr p \<and> p \<in> set valid_platforms
       \<and> load_dependencies h = Inr deps
       \<and> \<not> (\<exists>pre post. module_dir h = pre @ ''site-packages/'' @ post) \<longrightarrow>
      setup_runtime_dependencies h st = (Inl ValueError, st)
      \<and> TypeScriptLanguageServer h root st = (Inl ValueError, st))"
proof (intro conjI impI)
  assume a: "\<not> (\<exists>pre post. module_dir h = pre @ ''site-packages/'' @ post)"
  show "isl (fst (setup_runtime_dependencies h st))"
    using setup_without_site_packages(1) [OF a] .
  then show "isl (fst (TypeScriptLanguageServer h root st))"
    by (auto simp: TypeScriptLanguageServer_def split: prod.splits sum.splits)
next
  assume a: "get_platform_id h = Inr p \<and> p \<in> set valid_platforms
       \<and> load_dependencies h = Inr deps
       \<and> \<not> (\<exists>pre post. module_dir h = pre @ ''site-packages/'' @ post)"
  then show s: "setup_runtime_dependencies h st = (Inl ValueError, st)"
    using setup_without_site_packages_ValueError by blast
  show "TypeScriptLanguageServer h root st = (Inl ValueError, st)"
    by (simp add: TypeScriptLanguageServer_def s)
qed

lemma example_host_fields:
  "get_platform_id (example_host dir wh) = Inr LINUX_x64"
  "module_dir (example_host dir wh) = dir"
  "which (example_host dir wh) = wh"
  "load_dependencies (example_host dir wh) =
     Inr (JArr [JObj [(''id'', JStr ''typescript-language-server''),
                      (''command'', JStr ''npm install typescript-language-server'')]])"
  "LINUX_x64 \<in> set valid_platforms"
  by (simp_all add: example_host_def load_dependencies_def valid_platforms_def)

lemma example_dirs:
  "str_find example_checkout_dir ''site-packages/'' = - 1"
  "str_find example_site_dir ''site-packages/'' = 17"
  by (simp_all add: example_checkout_dir_def example_site_dir_def str_find_def starts_with_def)

lemma example_paths:
  "tsserver_ls_dir = ''/tmp/static/ts-lsp''"
  "tsserver_executable = ''/tmp/static/ts-lsp/node_modules/.bin/typescript-language-server''"
  by (simp_all add: tsserver_ls_dir_def tsserver_executable_def os_path_join_def join2_def
      starts_with_def ends_with_def)

theorem construction_requires_site_packages_witness:
  "\<not> (\<exists>pre post. module_dir (example_host example_checkout_dir example_path)
         = pre @ ''site-packages/'' @ post)
   \<and> get_platform_id (example_host example_checkout_dir example_path) = Inr LINUX_x64
   \<and> LINUX_x64 \<in> set valid_platforms
   \<and> load_dependencies (example_host example_checkout_dir example_path) =
       Inr (JArr [JObj [(''id'', JStr ''typescript-language-server''),
                        (''command'', JStr ''npm install typescript-language-server'')]])
   \<and> which (example_host example_checkout_dir example_path) ''node'' = Some ''/usr/bin/node''
   \<and> which (example_host example_checkout_dir example_path) ''npm'' = Some ''/usr/bin/npm''
   \<and> tsserver_executable \<in> files example_installed
   \<and> isl (fst (setup_runtime_dependencies (example_host example_checkout_dir example_path)
              example_installed))
   \<and> setup_runtime_dependencies (example_host example_checkout_dir example_path)
        example_installed = (Inl ValueError, example_installed)
   \<and> TypeScriptLanguageServer (example_host example_checkout_dir example_path)
        ''/home/u/repo'' example_installed = (Inl ValueError, example_installed)"
proof -
  let ?h = "example_host example_checkout_dir example_path"
  have n: "\<not> (\<exists>pre post. module_dir ?h = pre @ ''site-packages/'' @ post)"
    using str_find_none_iff [of example_checkout_dir "''site-packages/''"]
    by (simp add: example_host_fields example_dirs)
  from n construction_requires_site_packages
    [of ?h example_installed "''/home/u/repo''" LINUX_x64
       "JArr [JObj [(''id'', JStr ''typescript-language-server''),
                        (''command'', JStr ''npm install typescript-language-server'')]]"]
  show ?thesis
    by (simp add: example_host_fields example_path_def example_installed_def)
qed



lemma construction_isl:
  "isl (fst (TypeScriptLanguageServer h root st)) = isl (fst (setup_runtime_dependencies h st))"
  "snd (TypeScriptLanguageServer h root st) = snd (setup_runtime_dependencies h st)"
  by (auto simp: TypeScriptLanguageServer_def split: prod.splits sum.splits)

lemma setup_needs_node_npm_executable:
  assumes "which h ''node'' = None \<or> which h ''npm'' = None
     \<or> tsserver_executable \<notin> files (snd (setup_runtime_dependencies h st))"
  shows "isl (fst (setup_runtime_dependencies h st))"
  using assms
  by (auto simp: setup_runtime_dependencies_def split: sum.splits prod.splits option.splits
      if_splits)

text \<open>When the install step ends without an exception it has run every command.\<close>

lemma install_dependencies_spawned:
  assumes "install_dependencies h ds st = (None, st')"
  shows "spawned st' = spawned st @ map command_of ds"
  using assms
proof (induction ds arbitrary: st)
  case Nil
  then show ?case by simp
next
  case (Cons d ds)
  from Cons.prems obtain cmd where cmd: "py_get d ''command'' JNull = Inr cmd"
    by (cases "py_get d ''command'' JNull") simp_all
  from Cons.prems cmd obtain fs where fs: "run_install h cmd tsserver_ls_dir (files st) = (None, fs)"
    by (cases "run_install h cmd tsserver_ls_dir (files st)") (auto split: option.splits)
  from Cons.prems cmd fs
  have "install_dependencies h ds \<lparr>files = fs, spawned = spawned st @ [cmd]\<rparr> = (None, st')"
    by simp
  from Cons.IH [OF this] cmd show ?case
    by (simp add: command_of_def)
qed

lemma install_if_needed_spawned:
  assumes "install_if_needed h deps st = (None, st')"
  shows "spawned st' = spawned st @
     (if tsserver_ls_dir \<in> files st then [] else dependency_commands deps)"
proof (cases "tsserver_ls_dir \<in> files st")
  case True
  with assms show ?thesis
    by (simp add: install_if_needed_def)
next
  case False
  from assms False obtain fs where fs: "makedirs h tsserver_ls_dir (files st) = (None, fs)"
    by (cases "makedirs h tsserver_ls_dir (files st)")
      (auto simp: install_if_needed_def split: option.splits)
  from assms False fs obtain ds where ds: "py_iter deps = Inr ds"
    by (cases "py_iter deps") (auto simp: install_if_needed_def)
  from assms False fs ds
  have "install_dependencies h ds (st\<lparr>files := fs\<rparr>) = (None, st')"
    by (simp add: install_if_needed_def)
  from install_dependencies_spawned [OF this] False ds show ?thesis
    by (simp add: dependency_commands_def)
qed

text \<open>
  Claim C6, as amended. When \<^verbatim>\<open>node\<close> or \<^verbatim>\<open>npm\<close> is not on the \<^verbatim>\<open>PATH\<close>, or the
  \<^verbatim>\<open>typescript-language-server\<close> executable is not at its place when the function looks
  for it, constructing the plugin raises and returns no instance, so there is no
  session to become ready and nothing to launch the server from. When the blocks that
  come first pass, a missing \<^verbatim>\<open>node\<close> or \<^verbatim>\<open>npm\<close> raises \<^verbatim>\<open>AssertionError\<close> before any
  path is created or any command spawned. A missing executable raises
  \<^verbatim>\<open>FileNotFoundError\<close> after the install step: when the directory
  \<^verbatim>\<open>/tmp/static/ts-lsp\<close> was not there, every install command of
  \<^verbatim>\<open>runtime_dependencies.json\<close> has been spawned by then, and nothing otherwise.
\<close>

theorem construction_fails_without_executable:
  "(which h ''node'' = None \<or> which h ''npm'' = None
      \<or> tsserver_executable \<notin> files (snd (setup_runtime_dependencies h st)) \<longrightarrow>
     isl (fst (TypeScriptLanguageServer h root st)))
   \<and> (get_platform_id h = Inr p \<and> p \<in> set valid_platforms
       \<and> load_dependencies h = Inr deps
       \<and> (\<exists>pre post. module_dir h = pre @ ''site-packages/'' @ post)
       \<and> (which h ''node'' = None \<or> which h ''npm'' = None) \<longrightarrow>
     TypeScriptLanguageServer h root st = (Inl AssertionError, st))
   \<and> (get_platform_id h = Inr p \<and> p \<in> set valid_platforms
       \<and> load_dependencies h = Inr deps
       \<and> (\<exists>pre post. module_dir h = pre @ ''site-packages/'' @ post)
       \<and> which h ''node'' \<noteq> None \<and> which h ''npm'' \<noteq> None
       \<and> install_if_needed h deps st = (None, st')
       \<and> tsserver_executable \<notin> files st' \<longrightarrow>
     TypeScriptLanguageServer h root st = (Inl FileNotFoundError, st')
     \<and> spawned st' = spawned st @
          (if tsserver_ls_dir \<in> files st then [] else dependency_commands deps))"
proof (intro conjI impI)
  assume "which h ''node'' = None \<or> which h ''npm'' = None
      \<or> tsserver_executable \<notin> files (snd (setup_runtime_dependencies h st))"
  then show "isl (fst (TypeScriptLanguageServer h root st))"
    using setup_needs_node_npm_executable by (simp add: construction_isl)
next
  assume a: "get_platform_id h = Inr p \<and> p \<in> set valid_platforms
       \<and> load_dependencies h = Inr deps
       \<and> (\<exists>pre post. module_dir h = pre @ ''site-packages/'' @ post)
       \<and> (which h ''node'' = None \<or> which h ''npm'' = None)"
  then have "str_find (module_dir h) ''site-packages/'' \<noteq> - 1"
    using str_find_none_iff [of "module_dir h" "''site-packages/''"] by blast
  with a have "setup_runtime_dependencies h st = (Inl AssertionError, st)"
    by (auto simp: setup_runtime_dependencies_def)
  then show "TypeScriptLanguageServer h root st = (Inl AssertionError, st)"
    by (simp add: TypeScriptLanguageServer_def)
next
  assume a: "get_platform_id h = Inr p \<and> p \<in> set valid_platforms
       \<and> load_dependencies h = Inr deps
       \<and> (\<exists>pre post. module_dir h = pre @ ''site-packages/'' @ post)
       \<and> which h ''node'' \<noteq> None \<and> which h ''npm'' \<noteq> None
       \<and> install_if_needed h deps st = (None, st')
       \<and> tsserver_executable \<notin> files st'"
  then have "str_find (module_dir h) ''site-packages/'' \<noteq> - 1"
    using str_find_none_iff [of "module_dir h" "''site-packages/''"] by blast
  with a have "setup_runtime_dependencies h st = (Inl FileNotFoundError, st')"
    by (auto simp: setup_runtime_dependencies_def)
  then show "TypeScriptLanguageServer h root st = (Inl FileNotFoundError, st')"
    by (simp add: TypeScriptLanguageServer_def)
  from a show "spawned st' = spawned st @
          (if tsserver_ls_dir \<in> files st then [] else dependency_commands deps)"
    using install_if_needed_spawned by blast
qed

lemma example_site_dir_contains:
  "\<exists>pre post. module_dir (example_host example_site_dir wh) = pre @ ''site-packages/'' @ post"
  using str_find_none_iff [of example_site_dir "''site-packages/''"]
  by (simp add: example_host_fields example_dirs)

lemma example_idle_install_host_fields:
  "get_platform_id example_idle_install_host = Inr LINUX_x64"
  "module_dir example_idle_install_host = example_site_dir"
  "which example_idle_install_host = example_path"
  "load_dependencies example_idle_install_host =
     Inr (JArr [JObj [(''id'', JStr ''typescript-language-server''),
                      (''command'', JStr ''npm install typescript-language-server'')]])"
  "makedirs example_idle_install_host p fs = (None, insert p fs)"
  "run_install example_idle_install_host cmd cwd fs = (None, fs)"
  by (simp_all add: example_idle_install_host_def example_host_def load_dependencies_def)

lemma example_idle_install:
  "install_if_needed example_idle_install_host
     (JArr [JObj [(''id'', JStr ''typescript-language-server''),
                  (''command'', JStr ''npm install typescript-language-server'')]])
     example_empty_disk =
   (None, \<lparr>files = {tsserver_ls_dir},
           spawned = [JStr ''npm install typescript-language-server'']\<rparr>)"
  by (simp add: install_if_needed_def example_idle_install_host_fields example_empty_disk_def)

theorem construction_fails_without_executable_witness:
  "which (example_host example_site_dir (\<lambda>name. None)) ''node'' = None
   \<and> TypeScriptLanguageServer (example_host example_site_dir (\<lambda>name. None)) ''/home/u/repo''
        example_installed = (Inl AssertionError, example_installed)
   \<and> which example_idle_install_host ''node'' \<noteq> None
   \<and> which example_idle_install_host ''npm'' \<noteq> None
   \<and> install_if_needed example_idle_install_host
        (JArr [JObj [(''id'', JStr ''typescript-language-server''),
                     (''command'', JStr ''npm install typescript-language-server'')]])
        example_empty_disk
      = (None, \<lparr>files = {tsserver_ls_dir},
                spawned = [JStr ''npm install typescript-language-server'']\<rparr>)
   \<and> tsserver_executable \<notin> {tsserver_ls_dir}
   \<and> TypeScriptLanguageServer example_idle_install_host ''/home/u/repo'' example_empty_disk
      = (Inl FileNotFoundError,
         \<lparr>files = {tsserver_ls_dir},
          spawned = [JStr ''npm install typescript-language-server'']\<rparr>)
   \<and> isl (fst (TypeScriptLanguageServer example_idle_install_host ''/home/u/repo''
        example_empty_disk))
   \<and> dependency_commands
        (JArr [JObj [(''id'', JStr ''typescript-language-server''),
                     (''command'', JStr ''npm install typescript-language-server'')]])
      = [JStr ''npm install typescript-language-server'']"
proof -
  let ?deps = "JArr [JObj [(''id'', JStr ''typescript-language-server''),
                     (''command'', JStr ''npm install typescript-language-server'')]]"
  let ?st = "\<lparr>files = {tsserver_ls_dir},
             spawned = [JStr ''npm install typescript-language-server'']\<rparr>"
  have x: "tsserver_executable \<notin> {tsserver_ls_dir}"
    by (simp add: example_paths)
  have c: "\<exists>pre post. module_dir example_idle_install_host = pre @ ''site-packages/'' @ post"
    using example_site_dir_contains [of example_path]
    by (simp add: example_idle_install_host_fields example_host_fields)
  have d: "dependency_commands ?deps = [JStr ''npm install typescript-language-server'']"
    by (simp add: dependency_commands_def command_of_def)
  from construction_fails_without_executable
    [of "example_host example_site_dir (\<lambda>name. None)" example_installed "''/home/u/repo''"
       LINUX_x64 ?deps example_installed]
    construction_fails_without_executable
    [of example_idle_install_host example_empty_disk "''/home/u/repo''" LINUX_x64 ?deps ?st]
    example_site_dir_contains c example_idle_install x d
  show ?thesis
    by (simp add: example_host_fields example_idle_install_host_fields example_path_def)
qed

text \<open>
  The claim as first stated fails where it says that construction fails before any
  process is spawned: on a host without the directory, whose install command runs and
  leaves no executable, \<^verbatim>\<open>npm install\<close> has been spawned when \<^verbatim>\<open>FileNotFoundError\<close> is
  raised.
\<close>

theorem construction_spawns_installer_counterexample:
  "spawned example_empty_disk = []
   \<and> TypeScriptLanguageServer example_idle_install_host ''/home/u/repo'' example_empty_disk
      = (Inl FileNotFoundError,
         \<lparr>files = {tsserver_ls_dir},
          spawned = [JStr ''npm install typescript-language-server'']\<rparr>)"
proof -
  have "str_find (module_dir example_idle_install_host) ''site-packages/'' = 17"
    by (simp add: example_idle_install_host_fields example_dirs)
  then have "setup_runtime_dependencies example_idle_install_host example_empty_disk =
      (Inl FileNotFoundError,
       \<lparr>files = {tsserver_ls_dir},
        spawned = [JStr ''npm install typescript-language-server'']\<rparr>)"
    by (simp add: setup_runtime_dependencies_def example_idle_install_host_fields
        example_idle_install example_path_def valid_platforms_def example_paths)
  then show ?thesis
    by (simp add: TypeScriptLanguageServer_def example_empty_disk_def)
qed

subsection \<open>The handler of capability registrations\<close>

lemma start_server_enter_searcher_signal:
  "initialize_searcher_command_available (snd (start_server_enter env s)) =
     initialize_searcher_command_available s"
  by (simp add: start_server_enter_snd handshake_def Let_def split: option.splits sum.splits)

text \<open>
  On an instance that has the attribute, and entries that each carry a method, the
  handler sets the signal once for every entry whose method is
  \<^verbatim>\<open>workspace/executeCommand\<close> and does nothing else.
\<close>

lemma register_capability_loop_with_signal:
  assumes "list_all (\<lambda>r. \<not> isl (getitem r ''method'')) rs"
    and "initialize_searcher_command_available s \<noteq> None"
  shows "register_capability_loop rs s =
     (Inr JNull,
      s\<lparr>initialize_searcher_command_available :=
           (if list_ex registers_execute_command rs then Some True
            else initialize_searcher_command_available s),
         trace := trace s @ replicate (length (filter registers_execute_command rs))
                    (Set_signal Initialize_searcher_command_available)\<rparr>)"
  using assms
proof (induction rs arbitrary: s)
  case Nil
  then show ?case by simp
next
  case (Cons r rs)
  from Cons.prems obtain m where m: "getitem r ''method'' = Inr m"
    by (cases "getitem r ''method''") simp_all
  from Cons.prems have rest: "list_all (\<lambda>r. \<not> isl (getitem r ''method'')) rs"
    by simp
  from Cons.prems obtain b where b: "initialize_searcher_command_available s = Some b"
    by blast
  show ?case
  proof (cases "m = JStr ''workspace/executeCommand''")
    case True
    have "initialize_searcher_command_available
        (set_signal Initialize_searcher_command_available s) \<noteq> None"
      by simp
    from Cons.IH [OF rest this] m b True show ?thesis
      by (simp add: registers_execute_command_def emit_def replicate_append_same)
  next
    case False
    from Cons.IH [OF rest Cons.prems(2)] m False show ?thesis
      by (simp add: registers_execute_command_def)
  qed
qed

lemma register_capability_handler_with_signal:
  assumes "getitem params ''registrations'' = Inr (JArr rs)"
    and "list_all (\<lambda>r. \<not> isl (getitem r ''method'')) rs"
    and "initialize_searcher_command_available s \<noteq> None"
  shows "fst (call_handler Ref_register_capability_handler params s) = Inr JNull
     \<and> trace (snd (call_handler Ref_register_capability_handler params s)) =
         trace s @ replicate (length (filter registers_execute_command rs))
                     (Set_signal Initialize_searcher_command_available)
     \<and> initialize_searcher_command_available
          (snd (call_handler Ref_register_capability_handler params s)) =
        (if list_ex registers_execute_command rs then Some True
         else initialize_searcher_command_available s)
     \<and> completions_available (snd (call_handler Ref_register_capability_handler params s)) =
        completions_available s
     \<and> server_ready (snd (call_handler Ref_register_capability_handler params s)) =
        server_ready s"
proof -
  from assms(1) obtain d where d: "params = JObj d"
    "map_of d ''registrations'' = Some (JArr rs)"
    by (auto simp: getitem_eq_Inr)
  have "register_capability_handler params s = register_capability_loop rs s"
    using d by (simp add: register_capability_handler_def)
  then show ?thesis
    by (simp add: register_capability_loop_with_signal [OF assms(2,3)])
qed

text \<open>
  On an instance without the attribute the handler changes nothing: it returns
  \<^verbatim>\<open>None\<close> when no entry has the method, and raises \<^verbatim>\<open>AttributeError\<close> at the first
  entry that has it.
\<close>

lemma register_capability_loop_without_signal:
  assumes "list_all (\<lambda>r. \<not> isl (getitem r ''method'')) rs"
    and "initialize_searcher_command_available s = None"
  shows "register_capability_loop rs s =
     (if list_ex registers_execute_command rs then Inl AttributeError else Inr JNull, s)"
  using assms
proof (induction rs)
  case Nil
  then show ?case by simp
next
  case (Cons r rs)
  from Cons.prems obtain m where m: "getitem r ''method'' = Inr m"
    by (cases "getitem r ''method''") simp_all
  from Cons show ?case
    using m by (simp add: registers_execute_command_def)
qed

lemma register_capability_handler_without_signal:
  assumes "getitem params ''registrations'' = Inr (JArr rs)"
    and "list_all (\<lambda>r. \<not> isl (getitem r ''method'')) rs"
    and "initialize_searcher_command_available s = None"
  shows "call_handler Ref_register_capability_handler params s =
     (if list_ex registers_execute_command rs then Inl AttributeError else Inr JNull, s)"
proof -
  from assms(1) obtain d where d: "params = JObj d"
    "map_of d ''registrations'' = Some (JArr rs)"
    by (auto simp: getitem_eq_Inr)
  have "register_capability_handler params s = register_capability_loop rs s"
    using d by (simp add: register_capability_handler_def)
  then show ?thesis
    by (simp add: register_capability_loop_without_signal [OF assms(2,3)])
qed

lemma example_construction:
  "TypeScriptLanguageServer (example_host example_site_dir example_path) ''/home/u/repo''
     example_installed = (Inr example_server, example_installed)"
proof -
  let ?h = "example_host example_site_dir example_path"
  have "setup_runtime_dependencies ?h example_installed =
      (Inr (tsserver_executable @ '' --stdio''), example_installed)"
    by (simp add: setup_runtime_dependencies_def install_if_needed_def example_host_fields
        example_dirs example_path_def example_installed_def)
  moreover have "\<not> base_creates_searcher_signal ?h"
    by (simp add: example_host_def)
  ultimately show ?thesis
    by (simp add: TypeScriptLanguageServer_def example_server_def example_paths)
qed

text \<open>
  Claim C7, on the code. The plugin's \<^verbatim>\<open>__init__\<close> creates \<^verbatim>\<open>server_ready\<close> and no
  other signal. On the instance it builds (with a base class that does not create
  \<^verbatim>\<open>initialize_searcher_command_available\<close> either), once the session is ready, the
  handler registered for \<^verbatim>\<open>client/registerCapability\<close> is
  \<^verbatim>\<open>register_capability_handler\<close>; a request with an entry whose method is
  \<^verbatim>\<open>workspace/executeCommand\<close> ends it with \<^verbatim>\<open>AttributeError\<close> at line 215, and no
  signal is set: the instance is as it was.
\<close>

theorem register_capability_handler_raises_without_signal:
  "TypeScriptLanguageServer (example_host example_site_dir example_path) ''/home/u/repo''
     example_installed = (Inr example_server, example_installed)
   \<and> fst (start_server_enter example_good_runtime example_server) = Inr ()
   \<and> map_of (on_request_handlers (snd (start_server_enter example_good_runtime example_server)))
        ''client/registerCapability'' = Some Ref_register_capability_handler
   \<and> initialize_searcher_command_available
        (snd (start_server_enter example_good_runtime example_server)) = None
   \<and> list_ex registers_execute_command example_registrations
   \<and> call_handler Ref_register_capability_handler
        (JObj [(''registrations'', JArr example_registrations)])
        (snd (start_server_enter example_good_runtime example_server))
      = (Inl AttributeError, snd (start_server_enter example_good_runtime example_server))"
proof -
  let ?s = "snd (start_server_enter example_good_runtime example_server)"
  have n: "initialize_searcher_command_available ?s = None"
    by (simp add: start_server_enter_searcher_signal example_server_def)
  have t: "map_of (on_request_handlers ?s) ''client/registerCapability'' =
      Some Ref_register_capability_handler"
    by (simp add: start_server_enter_snd handshake_tables register_handlers_tables)
  have x: "list_ex registers_execute_command example_registrations"
    by (simp add: example_registrations_def registers_execute_command_def)
  have h: "getitem (JObj [(''registrations'', JArr example_registrations)]) ''registrations''
      = Inr (JArr example_registrations)"
    "list_all (\<lambda>r. \<not> isl (getitem r ''method'')) example_registrations"
    by (simp_all add: example_registrations_def)
  from register_capability_handler_without_signal [OF h n] x
  have "call_handler Ref_register_capability_handler
        (JObj [(''registrations'', JArr example_registrations)]) ?s = (Inl AttributeError, ?s)"
    by simp
  with n t x example_construction example_good_enter(1) show ?thesis
    by simp
qed

text \<open>
  On the same instance with the attribute created, the same request sets the signal
  once and returns.
\<close>

lemma register_capability_handler_with_signal_example:
  "fst (call_handler Ref_register_capability_handler
        (JObj [(''registrations'', JArr example_registrations)])
        (example_server\<lparr>initialize_searcher_command_available := Some False\<rparr>)) = Inr JNull"
  "trace (snd (call_handler Ref_register_capability_handler
        (JObj [(''registrations'', JArr example_registrations)])
        (example_server\<lparr>initialize_searcher_command_available := Some False\<rparr>))) =
        [Set_signal Initialize_searcher_command_available]"
  "initialize_searcher_command_available (snd (call_handler Ref_register_capability_handler
        (JObj [(''registrations'', JArr example_registrations)])
        (example_server\<lparr>initialize_searcher_command_available := Some False\<rparr>))) = Some True"
  by (simp_all add: example_registrations_def register_capability_handler_def emit_def
      example_server_def)

text \<open>
  An entry without a method ends the handler with the \<^verbatim>\<open>KeyError\<close> of the subscript,
  before it looks at the entries that follow.
\<close>

lemma register_capability_handler_malformed_entry:
  "list_ex registers_execute_command example_malformed_registrations"
  "call_handler Ref_register_capability_handler
     (JObj [(''registrations'', JArr example_malformed_registrations)]) example_server =
   (Inl KeyError, example_server)"
  by (simp_all add: example_malformed_registrations_def registers_execute_command_def
      register_capability_handler_def)


end
